theory Spec2Isabelle
  imports Complex_Main
begin

section \<open>FreeMatchTrainer (trainer.py): data model\<close>

text \<open>
  A float is a real number or NaN. Arithmetic on real numbers is exact (no rounding, no
  overflow); an operation with a NaN operand gives NaN, and a comparison with NaN is
  false. A division by zero gives NaN: \<open>0 / 0\<close> is NaN, and the one other division by
  zero that trainer.py can make is \<open>rho / norm\<close>, an infinity whose only use is to be
  multiplied with the entries of the gradients whose norm is zero, all of them zero, which
  gives NaN again.
\<close>

datatype fl = Fin real | NaN

fun fadd :: "fl \<Rightarrow> fl \<Rightarrow> fl" where
  "fadd (Fin a) (Fin b) = Fin (a + b)"
| "fadd x y = NaN"

fun fsub :: "fl \<Rightarrow> fl \<Rightarrow> fl" where
  "fsub (Fin a) (Fin b) = Fin (a - b)"
| "fsub x y = NaN"

fun fmul :: "fl \<Rightarrow> fl \<Rightarrow> fl" where
  "fmul (Fin a) (Fin b) = Fin (a * b)"
| "fmul x y = NaN"

fun fdiv :: "fl \<Rightarrow> fl \<Rightarrow> fl" where
  "fdiv (Fin a) (Fin b) = (if b = 0 then NaN else Fin (a / b))"
| "fdiv x y = NaN"

fun fsqrt :: "fl \<Rightarrow> fl" where
  "fsqrt (Fin a) = (if a < 0 then NaN else Fin (sqrt a))"
| "fsqrt NaN = NaN"

fun fexp :: "fl \<Rightarrow> fl" where
  "fexp (Fin a) = Fin (exp a)"
| "fexp NaN = NaN"

fun fless :: "fl \<Rightarrow> fl \<Rightarrow> bool" where
  "fless (Fin a) (Fin b) = (a < b)"
| "fless x y = False"

definition fsum :: "fl list \<Rightarrow> fl" where
  "fsum xs = foldr fadd xs (Fin 0)"

text \<open>
  Tensors are lists of floats: a flat tensor is a list, a two-dimensional tensor is a list
  of rows. The parameters of the online model are one flat tensor per parameter; a
  gradient list holds \<open>None\<close> where autograd found no gradient.

  The collaborators of the trainer (network, loss criteria, autograd, optimizer, scheduler,
  EMA wrapper, metrics) live outside trainer.py; they are passed as the fields of an
  environment record and are taken to return without raising. Train/eval mode and the
  running statistics of normalisation layers belong to the forward collaborator.
\<close>

type_synonym tensor = "fl list"
type_synonym matrix = "fl list list"
type_synonym grads = "fl list option list"

text \<open>
  The outcomes of a run that does not complete. All but the last are Python exceptions.
  \<open>ShapeMismatch\<close> marks an elementwise operation on tensors of different shapes, where
  the source raises or broadcasts.
\<close>

datatype error =
    AssertionError | RuntimeError | IndexError | ValueError | NameError
  | ZeroDivisionError | TypeError | AttributeError | FileNotFoundError
  | ShapeMismatch

text \<open>The calls into collaborators that have an effect, in the order they are made.\<close>

datatype event =
    EnableRunningStats | DisableRunningStats | Forward | CELoss | SatLoss | SafLoss
  | AutogradGrad | MSELoss | Backward | OptimStep | ScalerUpdate | SchedStep | EmaUpdate
  | ZeroGrad | Validate | Save string | TbUpdate

record cfg =
  num_train_iters :: int
  num_eval_iters :: int
  num_warmup_iters :: int
  num_log_iters :: int
  ulb_loss_ratio :: real
  ent_loss_ratio :: real
  x_sharp :: bool
  rho :: real
  num_classes :: nat
  amp_enabled :: bool
  poloss :: bool
  use_tb :: bool
  cont_train :: bool
  resume :: string
  log_dir :: string
  run_name :: string
  output_dir :: string

text \<open>The dictionary that \<open>__save__model__\<close> hands to \<open>torch.save\<close>.\<close>

record ('o, 's) checkpoint =
  model_state_dict :: matrix
  ema_state_dict :: matrix
  optimizer_state_dict :: 'o
  scheduler_state_dict :: 's
  ck_curr_iter :: int
  ck_best_test_iter :: int
  ck_best_test_acc :: fl
  ck_tau_t :: fl
  ck_p_t :: "fl list"
  ck_label_hist :: "fl list"

text \<open>
  The fields of \<open>self\<close>, followed by the two label banks (locals of \<open>train\<close> that live
  across its iterations), the files written by \<open>torch.save\<close> and the trace of collaborator
  calls.
\<close>

record ('o, 's) trainer =
  curr_iter :: int
  best_test_iter :: int
  best_test_acc :: fl
  tau_t :: fl
  p_t :: "fl list"
  label_hist :: "fl list"
  model :: matrix
  pgrad :: grads
  ema :: matrix
  optim :: 'o
  sched :: 's
  grad_w :: grads
  eps :: grads
  label_bank_w :: matrix
  label_bank_s :: matrix
  disk :: "string \<Rightarrow> ('o, 's) checkpoint option"
  trace :: "event list"

type_synonym ('o, 's) result = "(error \<times> ('o, 's) trainer) + ('o, 's) trainer"

definition emit :: "event \<Rightarrow> ('o, 's) trainer \<Rightarrow> ('o, 's) trainer" where
  "emit e s = s\<lparr>trace := trace s @ [e]\<rparr>"

definition bind_res ::
  "(error \<times> ('o, 's) trainer) + 'a \<Rightarrow> ('a \<Rightarrow> (error \<times> ('o, 's) trainer) + 'b)
     \<Rightarrow> (error \<times> ('o, 's) trainer) + 'b" where
  "bind_res m f = (case m of Inl e \<Rightarrow> Inl e | Inr x \<Rightarrow> f x)"

text \<open>Batches, as the data loaders yield them.\<close>

record 'x lb_batch =
  img_lb_w :: "'x list"
  label_lb :: "nat list"

record 'x ulb_batch =
  img_ulb_w :: "'x list"
  img_ulb_s :: "'x list"
  idx :: "nat list"

text \<open>What \<open>validate\<close> returns.\<close>

record validate_dict =
  validation_loss :: fl
  validation_accuracy :: fl
  validation_precision :: fl
  validation_recall :: fl
  validation_f1 :: fl

text \<open>The values bound by one iteration of \<open>train\<close>; \<open>loss_po\<close> is \<open>None\<close> while unbound.\<close>

record locals =
  loss_lb :: fl
  loss_sat :: fl
  mask_v :: "fl list"
  loss_saf :: fl
  hist_p_ulb_s :: "fl list"
  loss_po :: "fl option"
  loss :: fl

text \<open>
  The collaborators. \<open>net_fwd\<close> is the forward pass at given parameter values;
  \<open>autograd_grad\<close> is \<open>torch.autograd.grad\<close> of the labeled loss (parameters, images,
  number of labeled rows, labels); \<open>backward\<close> gives every parameter's \<open>.grad\<close> after
  \<open>loss.backward()\<close>, from the trainer at the start of the iteration, the trainer at the
  call and the two batches; \<open>optim_step\<close> takes the AMP flag (\<open>scaler.step\<close> or
  \<open>optim.step\<close>). The four data fields are those of the data manager \<open>self.dm\<close>.
\<close>

record ('x, 'o, 's) env =
  net_fwd :: "matrix \<Rightarrow> 'x list \<Rightarrow> matrix"
  ce_criterion :: "matrix \<Rightarrow> nat list \<Rightarrow> fl"
  sat_criterion ::
    "matrix \<Rightarrow> matrix \<Rightarrow> fl \<Rightarrow> fl list \<Rightarrow> fl list
       \<Rightarrow> fl \<times> fl list \<times> fl \<times> fl list \<times> fl list"
  saf_criterion :: "fl list \<Rightarrow> matrix \<Rightarrow> fl list \<Rightarrow> fl list \<Rightarrow> fl \<times> fl list"
  autograd_grad :: "matrix \<Rightarrow> 'x list \<Rightarrow> nat \<Rightarrow> nat list \<Rightarrow> grads"
  backward ::
    "cfg \<Rightarrow> ('o, 's) trainer \<Rightarrow> ('o, 's) trainer \<Rightarrow> 'x lb_batch \<Rightarrow> 'x ulb_batch option \<Rightarrow> grads"
  optim_step :: "bool \<Rightarrow> 'o \<Rightarrow> matrix \<Rightarrow> grads \<Rightarrow> 'o \<times> matrix"
  sched_step :: "'s \<Rightarrow> 'o \<Rightarrow> 's \<times> 'o"
  net_update :: "matrix \<Rightarrow> matrix \<Rightarrow> matrix"
  zero_grad :: "grads \<Rightarrow> grads"
  precision_score :: "nat list \<Rightarrow> nat list \<Rightarrow> fl"
  recall_score :: "nat list \<Rightarrow> nat list \<Rightarrow> fl"
  f1_score :: "nat list \<Rightarrow> nat list \<Rightarrow> fl"
  train_lb_dl :: "'x lb_batch list"
  train_ulb_dl :: "'x ulb_batch list"
  test_dl :: "'x lb_batch list"
  num_samples :: nat
  init_model :: matrix
  init_ema :: matrix
  init_optim :: 'o
  init_sched :: 's

section \<open>Tensor operations used by the trainer\<close>

definition same_shape :: "matrix \<Rightarrow> matrix \<Rightarrow> bool" where
  "same_shape a b = (map length a = map length b)"

text \<open>Mean of all elements; NaN for an empty tensor (\<open>0 / 0\<close>).\<close>

definition mean :: "fl list \<Rightarrow> fl" where
  "mean xs = fdiv (fsum xs) (Fin (real (length xs)))"

definition softmax :: "fl list \<Rightarrow> fl list" where
  "softmax xs = map (\<lambda>x. fdiv (fexp x) (fsum (map fexp xs))) xs"

text \<open>
  \<open>torch.max(t, dim=-1)\<close> on one row: the maximum and the first index where it stands,
  a NaN counting as above every number; \<open>None\<close> for an empty row, where torch raises.
\<close>

fun argmax_acc :: "nat \<Rightarrow> fl \<Rightarrow> nat \<Rightarrow> fl list \<Rightarrow> fl \<times> nat" where
  "argmax_acc bi bv i [] = (bv, bi)"
| "argmax_acc bi bv i (x # xs) =
     (if bv \<noteq> NaN \<and> (x = NaN \<or> fless bv x) then argmax_acc i x (Suc i) xs
      else argmax_acc bi bv (Suc i) xs)"

definition row_max :: "fl list \<Rightarrow> (fl \<times> nat) option" where
  "row_max r = (case r of [] \<Rightarrow> None | x # xs \<Rightarrow> Some (argmax_acc 0 x 1 xs))"

fun rows_max :: "matrix \<Rightarrow> (fl \<times> nat) list option" where
  "rows_max [] = Some []"
| "rows_max (r # rs) =
     (case row_max r of None \<Rightarrow> None
      | Some m \<Rightarrow> (case rows_max rs of None \<Rightarrow> None | Some ms \<Rightarrow> Some (m # ms)))"

text \<open>
  \<open>norm\<close> (lines 128-130), at its default \<open>p = 2\<close>, the only way it is called: the
  gradients that are not \<open>None\<close> are flattened and concatenated; \<open>torch.cat\<close> raises on an
  empty list (\<open>None\<close> here).
\<close>

definition norm_list :: "grads \<Rightarrow> fl option" where
  "norm_list tensor_list =
     (case map the (filter (\<lambda>x. x \<noteq> None) tensor_list) of
        [] \<Rightarrow> None
      | xs \<Rightarrow> Some (fsqrt (fsum (map (\<lambda>v. fmul v v) (concat xs)))))"

text \<open>
  \<open>t.chunk(2)\<close> along the rows, unpacked into two names: chunks of \<open>ceil(n / 2)\<close> rows;
  a single row gives a single chunk, and the unpacking raises.
\<close>

definition chunk2 :: "matrix \<Rightarrow> (matrix \<times> matrix) option" where
  "chunk2 t =
     (if length t = 1 then None
      else Some (take ((length t + 1) div 2) t, drop ((length t + 1) div 2) t))"

text \<open>\<open>bank[idx]\<close> as a read and as an assignment (a later duplicate index wins).\<close>

definition gather :: "matrix \<Rightarrow> nat list \<Rightarrow> matrix option" where
  "gather bank ix =
     (if list_all (\<lambda>i. i < length bank) ix then Some (map (\<lambda>i. bank ! i) ix) else None)"

definition scatter :: "matrix \<Rightarrow> nat list \<Rightarrow> matrix \<Rightarrow> matrix" where
  "scatter bank ix rows = foldl (\<lambda>b (i, r). b[i := r]) bank (zip ix rows)"

definition msub :: "matrix \<Rightarrow> matrix \<Rightarrow> matrix" where
  "msub a b = map2 (map2 fsub) a b"

text \<open>\<open>nn.MSELoss()\<close> with its default mean reduction, on tensors of one shape.\<close>

definition mse_loss :: "matrix \<Rightarrow> matrix \<Rightarrow> fl" where
  "mse_loss a b = mean (map (\<lambda>d. fmul d d) (concat (msub a b)))"

text \<open>
  The perturbation loop (lines 270-272): \<open>p.add_(v)\<close> for every parameter paired with an
  \<open>eps\<close> that is not \<open>None\<close>; \<open>zip\<close> stops at the shorter list. \<open>None\<close> as a result
  marks a \<open>v\<close> that does not have the shape of its parameter.
\<close>

fun add_eps :: "matrix \<Rightarrow> grads \<Rightarrow> matrix option" where
  "add_eps [] vs = Some []"
| "add_eps (p # ps) [] = Some (p # ps)"
| "add_eps (p # ps) (None # vs) = map_option ((#) p) (add_eps ps vs)"
| "add_eps (p # ps) (Some v # vs) =
     (if length v = length p then map_option ((#) (map2 fadd p v)) (add_eps ps vs)
      else None)"

text \<open>
  The restoring loop (lines 320-323 and 330-333) over \<open>zip(parameters, eps, grad_w)\<close>:
  where \<open>v\<close> is not \<open>None\<close>, \<open>p.sub_(v)\<close> and then \<open>p.grad += g\<close>. The second argument
  holds every parameter's \<open>.grad\<close> (a missing entry is a \<open>.grad\<close> that is \<open>None\<close>).
  Adding to a \<open>.grad\<close> that is \<open>None\<close>, or adding \<open>None\<close>, raises TypeError after the
  parameter has been restored; the result carries the error, if any, with the parameters
  and gradients as the loop left them.
\<close>

fun restore :: "matrix \<Rightarrow> grads \<Rightarrow> grads \<Rightarrow> grads \<Rightarrow> error option \<times> matrix \<times> grads" where
  "restore [] pg vs gs = (None, [], pg)"
| "restore (p # ps) pg [] gs = (None, p # ps, pg)"
| "restore (p # ps) pg (v # vs) [] = (None, p # ps, pg)"
| "restore (p # ps) pg (None # vs) (g # gs) =
     (case restore ps (tl pg) vs gs of
        (e, ps', pg') \<Rightarrow> (e, p # ps', (if pg = [] then [] else hd pg # pg')))"
| "restore (p # ps) pg (Some v # vs) (g # gs) =
     (if length v = length p then
        (case (if pg = [] then None else hd pg, g) of
           (Some a, Some b) \<Rightarrow>
             (if length a = length b then
                (case restore ps (tl pg) vs gs of
                   (e, ps', pg') \<Rightarrow> (e, map2 fsub p v # ps', Some (map2 fadd a b) # pg'))
              else (Some ShapeMismatch, map2 fsub p v # ps, pg))
         | _ \<Rightarrow> (Some TypeError, map2 fsub p v # ps, pg))
      else (Some ShapeMismatch, p # ps, pg))"

text \<open>
  The means of the columns of a tensor of \<open>width\<close> columns (NaN each when it has no row),
  \<open>torch.bincount\<close> and \<open>accuracy_score\<close> (NaN on no label at all).
\<close>

definition col_means :: "nat \<Rightarrow> matrix \<Rightarrow> fl list" where
  "col_means width P = map (\<lambda>c. mean (map (\<lambda>r. r ! c) P)) [0..<width]"

definition bincount :: "nat list \<Rightarrow> nat \<Rightarrow> nat list" where
  "bincount ix minlength =
     map (\<lambda>c. count_list ix c)
       [0..<max minlength (if ix = [] then 0 else Suc (fold max ix 0))]"

definition accuracy_score :: "nat list \<Rightarrow> nat list \<Rightarrow> fl" where
  "accuracy_score labels preds =
     fdiv (Fin (real (length (filter (\<lambda>(a, b). a = b) (zip labels preds)))))
       (Fin (real (length labels)))"

section \<open>Checkpoints: \<open>__save__model__\<close> and \<open>__load__model__\<close>\<close>

text \<open>\<open>os.path.join\<close> on two components (POSIX).\<close>

definition osp_join :: "string \<Rightarrow> string \<Rightarrow> string" where
  "osp_join a b =
     (if b \<noteq> [] \<and> hd b = CHR ''/'' then b
      else if a = [] \<or> last a = CHR ''/'' then a @ b
      else a @ ''/'' @ b)"

definition save_dict :: "('o, 's) trainer \<Rightarrow> ('o, 's) checkpoint" where
  "save_dict s =
     \<lparr> model_state_dict = model s,
       ema_state_dict = ema s,
       optimizer_state_dict = optim s,
       scheduler_state_dict = sched s,
       ck_curr_iter = curr_iter s,
       ck_best_test_iter = best_test_iter s,
       ck_best_test_acc = best_test_acc s,
       ck_tau_t = tau_t s,
       ck_p_t = p_t s,
       ck_label_hist = label_hist s \<rparr>"

definition save_model :: "('o, 's) trainer \<Rightarrow> string \<Rightarrow> string \<Rightarrow> ('o, 's) trainer" where
  "save_model s save_dir save_name =
     emit (Save (osp_join save_dir save_name))
       (s\<lparr>disk := (disk s)(osp_join save_dir save_name \<mapsto> save_dict s)\<rparr>)"

text \<open>
  \<open>load_state_dict\<close> of the online model is strict: a stored tensor whose shape is not
  that of the model's parameter raises. The other three loaders are collaborators.
\<close>

definition load_model :: "('o, 's) trainer \<Rightarrow> string \<Rightarrow> ('o, 's) result" where
  "load_model s load_path =
     (case disk s load_path of
        None \<Rightarrow> Inl (FileNotFoundError, s)
      | Some ckpt \<Rightarrow>
          if same_shape (model_state_dict ckpt) (model s) then
            Inr (s\<lparr> model := model_state_dict ckpt,
                   ema := ema_state_dict ckpt,
                   optim := optimizer_state_dict ckpt,
                   sched := scheduler_state_dict ckpt,
                   curr_iter := ck_curr_iter ckpt,
                   tau_t := ck_tau_t ckpt,
                   p_t := ck_p_t ckpt,
                   label_hist := ck_label_hist ckpt,
                   best_test_iter := ck_best_test_iter ckpt,
                   best_test_acc := ck_best_test_acc ckpt \<rparr>)
          else Inl (RuntimeError, s))"

section \<open>\<open>validate\<close> (lines 392-433)\<close>

text \<open>
  The EMA model (\<open>self.net\<close> in eval mode) runs over the test loader. The trace records
  the whole pass as one \<open>Validate\<close>. The predicted class of a row is its first maximum.
\<close>

definition validate ::
  "('x, 'o, 's) env \<Rightarrow> ('o, 's) trainer
     \<Rightarrow> (error \<times> ('o, 's) trainer) + (('o, 's) trainer \<times> validate_dict)" where
  "validate env s =
     (let s1 = emit Validate s;
          logits = map (\<lambda>b. net_fwd env (ema s) (img_lb_w b)) (test_dl env);
          labels = concat (map label_lb (test_dl env));
          total_num = sum_list (map (\<lambda>b. length (img_lb_w b)) (test_dl env));
          total_loss = fsum (map (\<lambda>b. fmul (ce_criterion env (net_fwd env (ema s) (img_lb_w b))
                          (label_lb b)) (Fin (real (length (img_lb_w b))))) (test_dl env))
      in case rows_max (concat logits) of
           None \<Rightarrow> Inl (IndexError, s1)
         | Some ms \<Rightarrow>
             if length labels = length ms then
               if total_num = 0 then Inl (ZeroDivisionError, s1)
               else Inr (s1,
                 \<lparr> validation_loss = fdiv total_loss (Fin (real total_num)),
                   validation_accuracy = accuracy_score labels (map snd ms),
                   validation_precision = precision_score env labels (map snd ms),
                   validation_recall = recall_score env labels (map snd ms),
                   validation_f1 = f1_score env labels (map snd ms) \<rparr>)
             else Inl (ValueError, s1))"

section \<open>\<open>warmup_train\<close> (lines 132-204)\<close>

text \<open>
  The statistics of lines 188-204, from the softmax outputs of the online model on the
  batches of the test loader: \<open>torch.cat\<close> raises on no batch at all and on rows of
  different widths. Batches without a row give a tensor without a row, which keeps its
  width, the number of classes.
\<close>

definition warmup_stats ::
  "('x, 'o, 's) env \<Rightarrow> cfg \<Rightarrow> ('o, 's) trainer \<Rightarrow> ('o, 's) result" where
  "warmup_stats env cfg s =
     (let probs = map (\<lambda>b. map softmax (net_fwd env (model s) (img_lb_w b))) (test_dl env);
          width = (case concat probs of [] \<Rightarrow> num_classes cfg | r # rs \<Rightarrow> length r)
      in if probs = [] then Inl (RuntimeError, s)
         else if list_all (\<lambda>r. length r = width) (concat probs) then
           (case rows_max (concat probs) of
              None \<Rightarrow> Inl (IndexError, s)
            | Some ms \<Rightarrow>
                Inr (s\<lparr> tau_t := mean (map fst ms),
                       p_t := col_means width (concat probs),
                       label_hist :=
                         map (\<lambda>x. fdiv (Fin (real x))
                                    (Fin (real (sum_list (bincount (map snd ms) width)))))
                           (bincount (map snd ms) width) \<rparr>))
         else Inl (RuntimeError, s))"

text \<open>The body of the loop after the check of the counter (lines 151-204).\<close>

definition warmup_step ::
  "('x, 'o, 's) env \<Rightarrow> cfg \<Rightarrow> ('o, 's) trainer \<Rightarrow> 'x lb_batch \<Rightarrow> ('o, 's) result" where
  "warmup_step env cfg s batch_lb =
     (let s1 = emit CELoss (emit Forward s);
          s2 = emit Backward (s1\<lparr>pgrad := backward env cfg s s1 batch_lb None\<rparr>);
          s3 = emit OptimStep
                 (s2\<lparr> optim := fst (optim_step env (amp_enabled cfg) (optim s2) (model s2) (pgrad s2)),
                      model := snd (optim_step env (amp_enabled cfg) (optim s2) (model s2) (pgrad s2)) \<rparr>);
          s4 = (if amp_enabled cfg then emit ScalerUpdate s3 else s3)
      in if num_log_iters cfg = 0 then Inl (ZeroDivisionError, s4)
         else warmup_stats env cfg (s4\<lparr>curr_iter := curr_iter s4 + 1\<rparr>))"

text \<open>
  The loop over the labeled loader (lines 145-149): it ends when the loader has no batch
  left, or at the \<open>break\<close>, which sets the counter to zero first.
\<close>

fun warmup_loop ::
  "('x, 'o, 's) env \<Rightarrow> cfg \<Rightarrow> ('o, 's) trainer \<Rightarrow> 'x lb_batch list \<Rightarrow> ('o, 's) result" where
  "warmup_loop env cfg s [] = Inr s"
| "warmup_loop env cfg s (batch_lb # rest) =
     (if curr_iter s \<ge> num_warmup_iters cfg then Inr (s\<lparr>curr_iter := 0\<rparr>)
      else case warmup_step env cfg s batch_lb of
             Inl e \<Rightarrow> Inl e
           | Inr s' \<Rightarrow> warmup_loop env cfg s' rest)"

definition warmup_train :: "('x, 'o, 's) env \<Rightarrow> cfg \<Rightarrow> ('o, 's) trainer \<Rightarrow> ('o, 's) result" where
  "warmup_train env cfg s = warmup_loop env cfg s (train_lb_dl env)"

section \<open>\<open>__init__\<close> (lines 36-126)\<close>

text \<open>
  The trainer is built on the files present at start-up. \<open>grad_w\<close>, \<open>eps\<close> and the label
  banks do not exist yet and are empty. \<open>__toggle__device__\<close> moves the three statistics
  to the device and changes no value.
\<close>

definition init ::
  "('x, 'o, 's) env \<Rightarrow> cfg \<Rightarrow> (string \<Rightarrow> ('o, 's) checkpoint option) \<Rightarrow> ('o, 's) result" where
  "init env cfg files =
     (let s0 = \<lparr> curr_iter = 0, best_test_iter = - 1, best_test_acc = Fin (- 1),
                 tau_t = mean (replicate (num_classes cfg)
                                 (fdiv (Fin 1) (Fin (real (num_classes cfg))))),
                 p_t = replicate (num_classes cfg) (fdiv (Fin 1) (Fin (real (num_classes cfg)))),
                 label_hist =
                   replicate (num_classes cfg) (fdiv (Fin 1) (Fin (real (num_classes cfg)))),
                 model = init_model env, pgrad = map (\<lambda>p. None) (init_model env),
                 ema = init_ema env, optim = init_optim env, sched = init_sched env,
                 grad_w = [], eps = [], label_bank_w = [], label_bank_s = [],
                 disk = files, trace = [] \<rparr>
      in bind_res (if cont_train cfg then load_model s0 (resume cfg) else Inr s0)
           (\<lambda>s1. if num_warmup_iters cfg > 0 then
                    bind_res (warmup_train env cfg s1)
                      (\<lambda>s2. bind_res (validate env s2) (\<lambda>(s3, validate_dict). Inr s3))
                  else Inr s1))"

section \<open>\<open>train\<close> (lines 206-390)\<close>

text \<open>The branch without sharpness (lines 255-261); it binds no \<open>loss_po\<close>.\<close>

definition plain_losses ::
  "('x, 'o, 's) env \<Rightarrow> cfg \<Rightarrow> ('o, 's) trainer \<Rightarrow> matrix \<Rightarrow> matrix \<Rightarrow> fl
     \<Rightarrow> ('o, 's) trainer \<times> locals" where
  "plain_losses env cfg s logits_ulb_w logits_ulb_s l_lb =
     (case sat_criterion env logits_ulb_w logits_ulb_s (tau_t s) (p_t s) (label_hist s) of
        (l_sat, mk, tau', p', h') \<Rightarrow>
          (case saf_criterion env mk logits_ulb_s p' h' of
             (l_saf, hist) \<Rightarrow>
               (emit SafLoss (emit SatLoss (s\<lparr>tau_t := tau', p_t := p', label_hist := h'\<rparr>)),
                \<lparr> loss_lb = l_lb, loss_sat = l_sat, mask_v = mk, loss_saf = l_saf,
                  hist_p_ulb_s = hist, loss_po = None,
                  loss = fadd (fadd l_lb (fmul (Fin (ulb_loss_ratio cfg)) l_sat))
                           (fmul (Fin (ent_loss_ratio cfg)) l_saf) \<rparr>)))"

text \<open>
  The perturbation (lines 264-272): gradient of the labeled loss, \<open>scale = rho / norm\<close>,
  \<open>eps = g * scale\<close> where \<open>g\<close> is not \<open>None\<close>, and \<open>p.add_(v)\<close>. Nothing guards the
  division: at a norm of zero every entry of \<open>eps\<close> is NaN and is added to the parameters.
\<close>

definition perturb ::
  "('x, 'o, 's) env \<Rightarrow> cfg \<Rightarrow> ('o, 's) trainer \<Rightarrow> 'x list \<Rightarrow> nat \<Rightarrow> nat list \<Rightarrow> ('o, 's) result" where
  "perturb env cfg s img num_lb lbl =
     (let s1 = emit AutogradGrad (s\<lparr>grad_w := autograd_grad env (model s) img num_lb lbl\<rparr>)
      in case norm_list (grad_w s1) of
           None \<Rightarrow> Inl (RuntimeError, s1)
         | Some nrm \<Rightarrow>
             (let scale = fdiv (Fin (rho cfg)) nrm;
                  s2 = s1\<lparr>eps := map (map_option (map (\<lambda>g. fmul g scale))) (grad_w s1)\<rparr>
              in case add_eps (model s2) (eps s2) of
                   None \<Rightarrow> Inl (ShapeMismatch, s2)
                 | Some ps \<Rightarrow> Inr (s2\<lparr>model := ps\<rparr>)))"

text \<open>
  The consistency term and the banks (lines 289-314), from the second-pass logits of the
  two unlabeled views: the shifts \<open>po\<close> and \<open>po_s\<close>, their mean squared error, and the
  banks with the rows at \<open>idx\<close> replaced by this iteration's softmax probabilities.
\<close>

definition po_term ::
  "matrix \<Rightarrow> matrix \<Rightarrow> nat list \<Rightarrow> matrix \<Rightarrow> matrix \<Rightarrow> error + (fl \<times> matrix \<times> matrix)" where
  "po_term bank_w bank_s ix logits_ulb_w_hat logits_ulb_s_hat =
     (case gather bank_w ix of
        None \<Rightarrow> Inl IndexError
      | Some label_w_expanded \<Rightarrow>
          (case gather bank_s ix of
             None \<Rightarrow> Inl IndexError
           | Some label_s_expanded \<Rightarrow>
               (let pseudo_label_g = map softmax logits_ulb_w_hat;
                    pseudo_label_s = map softmax logits_ulb_s_hat;
                    po = msub pseudo_label_g label_w_expanded;
                    po_s = msub pseudo_label_s label_s_expanded
                in if same_shape pseudo_label_g label_w_expanded
                      \<and> same_shape pseudo_label_s label_s_expanded \<and> same_shape po po_s then
                     Inr (mse_loss po po_s, scatter bank_w ix pseudo_label_g,
                          scatter bank_s ix pseudo_label_s)
                   else Inl ShapeMismatch)))"

text \<open>The second pass of the sharpness-aware branch (lines 275-314).\<close>

definition sharp_losses ::
  "('x, 'o, 's) env \<Rightarrow> cfg \<Rightarrow> ('o, 's) trainer \<Rightarrow> 'x list \<Rightarrow> nat \<Rightarrow> nat list \<Rightarrow> nat list \<Rightarrow> matrix
     \<Rightarrow> (error \<times> ('o, 's) trainer) + (('o, 's) trainer \<times> locals)" where
  "sharp_losses env cfg s img num_lb lbl ix logits_ulb_w =
     (let s1 = emit Forward (emit DisableRunningStats s);
          logits_hat = net_fwd env (model s) img
      in case chunk2 (drop num_lb logits_hat) of
           None \<Rightarrow> Inl (ValueError, s1)
         | Some (logits_ulb_w_hat, logits_ulb_s_hat) \<Rightarrow>
             (case sat_criterion env logits_ulb_w logits_ulb_s_hat (tau_t s) (p_t s) (label_hist s) of
                (l_sat, mk, tau', p', h') \<Rightarrow>
                  (case saf_criterion env mk logits_ulb_s_hat p' h' of
                     (l_saf, hist) \<Rightarrow>
                       (let s2 = emit SafLoss (emit SatLoss (emit CELoss s1
                                   \<lparr>tau_t := tau', p_t := p', label_hist := h'\<rparr>))
                        in case po_term (label_bank_w s) (label_bank_s s) ix
                                  logits_ulb_w_hat logits_ulb_s_hat of
                             Inl e \<Rightarrow> Inl (e, s2)
                           | Inr (l_po, bank_w', bank_s') \<Rightarrow>
                               Inr (emit MSELoss s2
                                      \<lparr>label_bank_w := bank_w', label_bank_s := bank_s'\<rparr>,
                                    \<lparr> loss_lb = ce_criterion env (take num_lb logits_hat) lbl,
                                      loss_sat = l_sat, mask_v = mk, loss_saf = l_saf,
                                      hist_p_ulb_s = hist, loss_po = Some l_po,
                                      loss =
                                        (if poloss cfg then
                                           fadd (fadd (fadd
                                             (ce_criterion env (take num_lb logits_hat) lbl)
                                             (fmul (Fin (ulb_loss_ratio cfg)) l_sat))
                                             (fmul (Fin (ent_loss_ratio cfg)) l_saf)) l_po
                                         else
                                           fadd (fadd
                                             (ce_criterion env (take num_lb logits_hat) lbl)
                                             (fmul (Fin (ulb_loss_ratio cfg)) l_sat))
                                             (fmul (Fin (ent_loss_ratio cfg)) l_saf)) \<rparr>)))))"

text \<open>
  From the batches to the composed loss (lines 233-314): the assertion on the two
  unlabeled views comes before the first forward pass.
\<close>

definition forward_phase ::
  "('x, 'o, 's) env \<Rightarrow> cfg \<Rightarrow> ('o, 's) trainer \<Rightarrow> 'x lb_batch \<Rightarrow> 'x ulb_batch
     \<Rightarrow> (error \<times> ('o, 's) trainer) + (('o, 's) trainer \<times> locals)" where
  "forward_phase env cfg s batch_lb batch_ulb =
     (if length (img_ulb_w batch_ulb) = length (img_ulb_s batch_ulb) then
        (let num_lb = length (img_lb_w batch_lb);
             img = img_lb_w batch_lb @ img_ulb_w batch_ulb @ img_ulb_s batch_ulb;
             s1 = emit Forward (if x_sharp cfg then emit EnableRunningStats s else s);
             logits = net_fwd env (model s) img
         in case chunk2 (drop num_lb logits) of
              None \<Rightarrow> Inl (ValueError, s1)
            | Some (logits_ulb_w, logits_ulb_s) \<Rightarrow>
                if x_sharp cfg then
                  bind_res (perturb env cfg (emit CELoss s1) img num_lb (label_lb batch_lb))
                    (\<lambda>s2. sharp_losses env cfg s2 img num_lb (label_lb batch_lb)
                             (idx batch_ulb) logits_ulb_w)
                else
                  Inr (plain_losses env cfg (emit CELoss s1) logits_ulb_w logits_ulb_s
                         (ce_criterion env (take num_lb logits) (label_lb batch_lb))))
      else Inl (AssertionError, s))"

text \<open>
  Backward pass, restoring of the perturbed parameters, optimizer step, scheduler step,
  EMA update and \<open>zero_grad\<close> (lines 316-338). \<open>s0\<close> is the trainer at the start of the
  iteration.
\<close>

definition update_phase ::
  "('x, 'o, 's) env \<Rightarrow> cfg \<Rightarrow> ('o, 's) trainer \<Rightarrow> ('o, 's) trainer \<Rightarrow> 'x lb_batch \<Rightarrow> 'x ulb_batch
     \<Rightarrow> ('o, 's) result" where
  "update_phase env cfg s0 s batch_lb batch_ulb =
     (let s1 = emit Backward (s\<lparr>pgrad := backward env cfg s0 s batch_lb (Some batch_ulb)\<rparr>)
      in case (if x_sharp cfg then restore (model s1) (pgrad s1) (eps s1) (grad_w s1)
               else (None, model s1, pgrad s1)) of
           (Some e, ps, pg) \<Rightarrow> Inl (e, s1\<lparr>model := ps, pgrad := pg\<rparr>)
         | (None, ps, pg) \<Rightarrow>
             (let s2 = emit OptimStep
                         (s1\<lparr> optim := fst (optim_step env (amp_enabled cfg) (optim s1) ps pg),
                              model := snd (optim_step env (amp_enabled cfg) (optim s1) ps pg),
                              pgrad := pg \<rparr>);
                  s3 = (if amp_enabled cfg then emit ScalerUpdate s2 else s2);
                  s4 = emit SchedStep
                         (s3\<lparr> sched := fst (sched_step env (sched s3) (optim s3)),
                              optim := snd (sched_step env (sched s3) (optim s3)) \<rparr>);
                  s5 = emit EmaUpdate (s4\<lparr>ema := net_update env (ema s4) (model s4)\<rparr>)
              in Inr (emit ZeroGrad (s5\<lparr>pgrad := zero_grad env (pgrad s5)\<rparr>))))"

text \<open>
  Evaluation and checkpoints (lines 358-380). Without TensorBoard (\<open>USE_TB\<close> off) the
  trainer has no \<open>tb\<close>, and \<open>self.tb.update\<close> raises after the checkpoints are written.
\<close>

definition eval_phase ::
  "('x, 'o, 's) env \<Rightarrow> cfg \<Rightarrow> ('o, 's) trainer \<Rightarrow> ('o, 's) result" where
  "eval_phase env cfg s =
     (if num_eval_iters cfg = 0 then Inl (ZeroDivisionError, s)
      else if (curr_iter s + 1) mod num_eval_iters cfg = 0 then
        bind_res (validate env s)
          (\<lambda>(s1, validate_dict).
             let save_dir = osp_join (osp_join (log_dir cfg) (run_name cfg)) (output_dir cfg);
                 s2 = (if fless (best_test_acc s1) (validation_accuracy validate_dict) then
                         save_model
                           (s1\<lparr> best_test_acc := validation_accuracy validate_dict,
                                best_test_iter := curr_iter s1 \<rparr>)
                           save_dir ''best_checkpoint.pth''
                       else s1);
                 s3 = save_model s2 save_dir ''last_checkpoint.pth''
             in if use_tb cfg then Inr (emit TbUpdate s3) else Inl (AttributeError, s3))
      else Inr s)"

text \<open>The console log and the increment of the counter (lines 382-388).\<close>

definition finish_iter :: "cfg \<Rightarrow> ('o, 's) trainer \<Rightarrow> ('o, 's) result" where
  "finish_iter cfg s =
     (if num_log_iters cfg = 0 then Inl (ZeroDivisionError, s)
      else Inr (s\<lparr>curr_iter := curr_iter s + 1\<rparr>))"

text \<open>
  One iteration of the loop (lines 229-390). Building \<open>log_dict\<close> (lines 344-356) reads
  \<open>loss_po\<close>, which raises while the name is unbound.
\<close>

definition train_iter ::
  "('x, 'o, 's) env \<Rightarrow> cfg \<Rightarrow> ('o, 's) trainer \<Rightarrow> 'x lb_batch \<times> 'x ulb_batch \<Rightarrow> ('o, 's) result" where
  "train_iter env cfg s b =
     bind_res (forward_phase env cfg s (fst b) (snd b))
       (\<lambda>(s1, l).
          bind_res (update_phase env cfg s s1 (fst b) (snd b))
            (\<lambda>s2. case loss_po l of
                     None \<Rightarrow> Inl (NameError, s2)
                   | Some v \<Rightarrow> bind_res (eval_phase env cfg s2) (finish_iter cfg)))"

text \<open>The loop over the two zipped loaders (lines 224-227) and \<open>train\<close> itself.\<close>

fun train_loop ::
  "('x, 'o, 's) env \<Rightarrow> cfg \<Rightarrow> ('o, 's) trainer \<Rightarrow> ('x lb_batch \<times> 'x ulb_batch) list
     \<Rightarrow> ('o, 's) result" where
  "train_loop env cfg s [] = Inr s"
| "train_loop env cfg s (b # rest) =
     (if curr_iter s \<ge> num_train_iters cfg then Inr s
      else case train_iter env cfg s b of
             Inl e \<Rightarrow> Inl e
           | Inr s' \<Rightarrow> train_loop env cfg s' rest)"

definition train :: "('x, 'o, 's) env \<Rightarrow> cfg \<Rightarrow> ('o, 's) trainer \<Rightarrow> ('o, 's) result" where
  "train env cfg s =
     train_loop env cfg
       (s\<lparr> label_bank_w :=
              replicate (num_samples env)
                (replicate (num_classes cfg) (fdiv (Fin 1) (Fin (real (num_classes cfg))))),
            label_bank_s :=
              replicate (num_samples env)
                (replicate (num_classes cfg) (fdiv (Fin 1) (Fin (real (num_classes cfg))))) \<rparr>)
       (zip (train_lb_dl env) (train_ulb_dl env))"

section \<open>A small configuration, for evaluating the definitions\<close>

text \<open>
  Two classes, a model of one parameter with two entries, images and the states of
  optimizer and scheduler as numbers. The network gives every image the logits \<open>[z, z]\<close>,
  where \<open>z\<close> is zero times the sum of the parameters (0, or NaN when a parameter is NaN);
  the labeled loss is zero times the sum of the logits. The gradient of the labeled loss
  is \<open>[3, 4]\<close>, of norm 5; the optimizer adds 1 to every entry, and the EMA model copies
  the online model.
\<close>

definition ex_lb :: "nat lb_batch" where
  "ex_lb = \<lparr> img_lb_w = [0], label_lb = [0] \<rparr>"

definition ex_ulb :: "nat ulb_batch" where
  "ex_ulb = \<lparr> img_ulb_w = [1], img_ulb_s = [2], idx = [0] \<rparr>"

definition ex_env :: "(nat, nat, nat) env" where
  "ex_env =
     \<lparr> net_fwd = (\<lambda>ps img. map (\<lambda>x. [fmul (Fin 0) (fsum (concat ps)),
                                        fmul (Fin 0) (fsum (concat ps))]) img),
       ce_criterion = (\<lambda>logits labels. fmul (Fin 0) (fsum (concat logits))),
       sat_criterion = (\<lambda>lw ls tau p h. (Fin 0, map (\<lambda>r. Fin 1) lw, tau, p, h)),
       saf_criterion = (\<lambda>mk ls p h. (Fin 0, h)),
       autograd_grad = (\<lambda>ps img n lbl. [Some [Fin 3, Fin 4]]),
       backward = (\<lambda>c s0 s lb ulb. [Some [Fin 1, Fin 1]]),
       optim_step = (\<lambda>amp st ps pg. (Suc st, map (map (\<lambda>x. fadd x (Fin 1))) ps)),
       sched_step = (\<lambda>sc st. (Suc sc, st)),
       net_update = (\<lambda>shadow ps. ps),
       zero_grad = map (\<lambda>g. None),
       precision_score = (\<lambda>labels preds. Fin 1),
       recall_score = (\<lambda>labels preds. Fin 1),
       f1_score = (\<lambda>labels preds. Fin 1),
       train_lb_dl = [ex_lb],
       train_ulb_dl = [ex_ulb],
       test_dl = [ex_lb],
       num_samples = 2,
       init_model = [[Fin 1, Fin 2]],
       init_ema = [[Fin 1, Fin 2]],
       init_optim = 0,
       init_sched = 0 \<rparr>"

definition ex_cfg :: cfg where
  "ex_cfg =
     \<lparr> num_train_iters = 10, num_eval_iters = 1, num_warmup_iters = 0, num_log_iters = 1,
       ulb_loss_ratio = 1, ent_loss_ratio = 1, x_sharp = True, rho = 5, num_classes = 2,
       amp_enabled = False, poloss = True, use_tb = True, cont_train = False,
       resume = ''ckpt.pth'', log_dir = ''log'', run_name = ''run'', output_dir = ''out'' \<rparr>"

text \<open>The trainer that \<open>__init__\<close> builds from them on an empty disk.\<close>

definition ex_trainer :: "(nat, nat) trainer" where
  "ex_trainer =
     \<lparr> curr_iter = 0, best_test_iter = - 1, best_test_acc = Fin (- 1), tau_t = Fin (1 / 2),
       p_t = [Fin (1 / 2), Fin (1 / 2)], label_hist = [Fin (1 / 2), Fin (1 / 2)],
       model = [[Fin 1, Fin 2]], pgrad = [None], ema = [[Fin 1, Fin 2]], optim = 0, sched = 0,
       grad_w = [], eps = [], label_bank_w = [], label_bank_s = [],
       disk = (\<lambda>path. None), trace = [] \<rparr>"

section \<open>Notions used to state the properties\<close>

text \<open>The events of the forward passes and of the loss computations.\<close>

definition forward_events :: "event set" where
  "forward_events =
     {EnableRunningStats, DisableRunningStats, Forward, CELoss, SatLoss, SafLoss,
      AutogradGrad, MSELoss}"

text \<open>Two trainers with the same bookkeeping: EMA, optimizer, scheduler, counters, files.\<close>

definition same_books :: "('o, 's) trainer \<Rightarrow> ('o, 's) trainer \<Rightarrow> bool" where
  "same_books s s' =
     (ema s' = ema s \<and> optim s' = optim s \<and> sched s' = sched s \<and> curr_iter s' = curr_iter s
      \<and> best_test_acc s' = best_test_acc s \<and> best_test_iter s' = best_test_iter s
      \<and> disk s' = disk s)"


definition updates :: "event list \<Rightarrow> event list" where
  "updates evs = filter (\<lambda>x. x \<in> {Backward, OptimStep, SchedStep, EmaUpdate}) evs"

text \<open>The events of an evaluation, and the directory of the checkpoints.\<close>

definition eval_events :: "event set" where
  "eval_events = insert Validate (insert TbUpdate (range Save))"

definition save_dir_of :: "cfg \<Rightarrow> string" where
  "save_dir_of cfg = osp_join (osp_join (log_dir cfg) (run_name cfg)) (output_dir cfg)"

text \<open>The small trainer as \<open>train\<close> starts its loop, with the two banks filled.\<close>

definition ex_start :: "(nat, nat) trainer" where
  "ex_start =
     ex_trainer\<lparr> label_bank_w := [[Fin (1 / 2), Fin (1 / 2)], [Fin (1 / 2), Fin (1 / 2)]],
                 label_bank_s := [[Fin (1 / 2), Fin (1 / 2)], [Fin (1 / 2), Fin (1 / 2)]] \<rparr>"

text \<open>
  The consistency term entry by entry, to compare \<open>po_term\<close> with: the shift of a view
  (this iteration's softmax of row \<open>k\<close> minus the row that the bank stores for the sample
  \<open>idx[k]\<close>), and the mean over all positions of the squared difference of two tensors.
\<close>

definition shift :: "matrix \<Rightarrow> matrix \<Rightarrow> nat list \<Rightarrow> matrix" where
  "shift logits bank ix =
     map (\<lambda>k. map (\<lambda>j. fsub (softmax (logits ! k) ! j) (bank ! (ix ! k) ! j))
                [0..<length (logits ! k)])
       [0..<length logits]"

definition positions :: "matrix \<Rightarrow> (nat \<times> nat) list" where
  "positions a = concat (map (\<lambda>i. map (\<lambda>j. (i, j)) [0..<length (a ! i)]) [0..<length a])"

definition mse_spec :: "matrix \<Rightarrow> matrix \<Rightarrow> fl" where
  "mse_spec a b =
     fdiv (fsum (map (\<lambda>(i, j). fmul (fsub (a ! i ! j) (b ! i ! j)) (fsub (a ! i ! j) (b ! i ! j)))
                   (positions a)))
       (Fin (real (length (positions a))))"

section \<open>Properties\<close>

subsection \<open>The phases of an iteration: traces and frames\<close>

lemma same_books_trans: "same_books a b \<Longrightarrow> same_books b c \<Longrightarrow> same_books a c"
  by (simp add: same_books_def)

lemma validate_state:
  "validate env s = Inr (s1, vd) \<Longrightarrow> s1 = emit Validate s"
  "validate env s = Inl (e, s1) \<Longrightarrow> s1 = emit Validate s"
  by (auto simp add: validate_def Let_def split: option.splits if_splits)

lemma perturb_Inr:
  assumes "perturb env cfg s img n lbl = Inr s'"
  shows "trace s' = trace s @ [AutogradGrad]" and "same_books s s'"
    and "label_bank_w s' = label_bank_w s" and "label_bank_s s' = label_bank_s s"
  using assms
  by (auto simp add: perturb_def emit_def Let_def same_books_def split: option.splits if_splits)


lemma sharp_losses_Inr:
  assumes "sharp_losses env cfg s img n lbl ix lw = Inr (s', l)"
  shows "trace s' = trace s @ [DisableRunningStats, Forward, CELoss, SatLoss, SafLoss, MSELoss]"
    and "same_books s s'" and "model s' = model s" and "loss_po l \<noteq> None"
  using assms
  by (auto simp add: sharp_losses_def emit_def Let_def same_books_def
      split: option.splits if_splits prod.splits sum.splits)


lemma forward_phase_sharp:
  assumes "x_sharp cfg" and "forward_phase env cfg s lb ulb = Inr (s1, l)"
  shows "\<exists>s2 lw. perturb env cfg (emit CELoss (emit Forward (emit EnableRunningStats s)))
              (img_lb_w lb @ img_ulb_w ulb @ img_ulb_s ulb) (length (img_lb_w lb)) (label_lb lb) = Inr s2
           \<and> sharp_losses env cfg s2 (img_lb_w lb @ img_ulb_w ulb @ img_ulb_s ulb)
                (length (img_lb_w lb)) (label_lb lb) (idx ulb) lw = Inr (s1, l)"
  using assms
  by (auto simp add: forward_phase_def Let_def bind_res_def
      split: option.splits if_splits prod.splits sum.splits)

lemma forward_phase_plain:
  assumes "\<not> x_sharp cfg" and "forward_phase env cfg s lb ulb = Inr (s1, l)"
  shows "trace s1 = trace s @ [Forward, CELoss, SatLoss, SafLoss]" and "same_books s s1"
    and "model s1 = model s" and "loss_po l = None"
  using assms
  by (auto simp add: forward_phase_def plain_losses_def emit_def Let_def same_books_def
      split: option.splits if_splits prod.splits)

lemma forward_phase_Inr:
  assumes "forward_phase env cfg s lb ulb = Inr (s1, l)"
  shows "\<exists>new. trace s1 = trace s @ new \<and> set new \<subseteq> forward_events"
    and "same_books s s1"
    and "x_sharp cfg \<Longrightarrow> loss_po l \<noteq> None"
proof -
  have "(\<exists>new. trace s1 = trace s @ new \<and> set new \<subseteq> forward_events)
     \<and> same_books s s1 \<and> (x_sharp cfg \<longrightarrow> loss_po l \<noteq> None)"
  proof (cases "x_sharp cfg")
    case True
    from forward_phase_sharp [OF True assms] obtain s2 lw where
      p: "perturb env cfg (emit CELoss (emit Forward (emit EnableRunningStats s)))
              (img_lb_w lb @ img_ulb_w ulb @ img_ulb_s ulb) (length (img_lb_w lb)) (label_lb lb) = Inr s2"
      and q: "sharp_losses env cfg s2 (img_lb_w lb @ img_ulb_w ulb @ img_ulb_s ulb)
                (length (img_lb_w lb)) (label_lb lb) (idx ulb) lw = Inr (s1, l)"
      by blast
    have "trace s1 = trace s @ [EnableRunningStats, Forward, CELoss, AutogradGrad,
        DisableRunningStats, Forward, CELoss, SatLoss, SafLoss, MSELoss]"
      using perturb_Inr(1) [OF p] sharp_losses_Inr(1) [OF q] by (simp add: emit_def)
    moreover have "same_books s s1"
      using perturb_Inr(2) [OF p] sharp_losses_Inr(2) [OF q] by (simp add: emit_def same_books_def)
    ultimately show ?thesis using sharp_losses_Inr(4) [OF q]
      by (simp add: forward_events_def)
  next
    case False
    from forward_phase_plain [OF False assms] show ?thesis
      using False by (simp add: forward_events_def)
  qed
  then show "\<exists>new. trace s1 = trace s @ new \<and> set new \<subseteq> forward_events"
    and "same_books s s1"
    and "x_sharp cfg \<Longrightarrow> loss_po l \<noteq> None"
    by blast+
qed



lemma update_phase_Inr:
  assumes "update_phase env cfg s0 s lb ulb = Inr s'"
  shows "trace s' = trace s @ [Backward, OptimStep]
           @ (if amp_enabled cfg then [ScalerUpdate] else [])
           @ [SchedStep, EmaUpdate, ZeroGrad]"
    and "\<exists>ps pg. model s' = snd (optim_step env (amp_enabled cfg) (optim s) ps pg)
           \<and> sched s' = fst (sched_step env (sched s) (fst (optim_step env (amp_enabled cfg) (optim s) ps pg)))
           \<and> optim s' = snd (sched_step env (sched s) (fst (optim_step env (amp_enabled cfg) (optim s) ps pg)))
           \<and> (x_sharp cfg \<longrightarrow> restore (model s) (backward env cfg s0 s lb (Some ulb)) (eps s) (grad_w s) = (None, ps, pg))
           \<and> (\<not> x_sharp cfg \<longrightarrow> ps = model s)"
    and "ema s' = net_update env (ema s) (model s')"
    and "curr_iter s' = curr_iter s" and "best_test_acc s' = best_test_acc s"
    and "best_test_iter s' = best_test_iter s" and "disk s' = disk s"
    and "label_bank_w s' = label_bank_w s" and "label_bank_s s' = label_bank_s s"
  using assms
  by (auto simp add: update_phase_def emit_def Let_def split: option.splits if_splits prod.splits)


lemma finish_iter_Inr:
  "finish_iter cfg s = Inr s' \<Longrightarrow> s' = s\<lparr>curr_iter := curr_iter s + 1\<rparr>"
  by (auto simp add: finish_iter_def split: if_splits)


lemma eval_phase_skip:
  assumes "(curr_iter s + 1) mod num_eval_iters cfg \<noteq> 0" and "eval_phase env cfg s = Inr s'"
  shows "s' = s"
  using assms by (auto simp add: eval_phase_def split: if_splits)

lemma checkpoint_paths_differ:
  "osp_join d ''best_checkpoint.pth'' \<noteq> osp_join d ''last_checkpoint.pth''"
  by (simp add: osp_join_def)

lemma eval_phase_run:
  assumes "(curr_iter s + 1) mod num_eval_iters cfg = 0" and "eval_phase env cfg s = Inr s'"
  shows "\<exists>vd. validate env s = Inr (emit Validate s, vd)
     \<and> trace s' = trace s @ [Validate]
          @ (if fless (best_test_acc s) (validation_accuracy vd)
             then [Save (osp_join (save_dir_of cfg) ''best_checkpoint.pth'')] else [])
          @ [Save (osp_join (save_dir_of cfg) ''last_checkpoint.pth''), TbUpdate]
     \<and> best_test_acc s' = (if fless (best_test_acc s) (validation_accuracy vd) then validation_accuracy vd else best_test_acc s)
     \<and> best_test_iter s' = (if fless (best_test_acc s) (validation_accuracy vd) then curr_iter s else best_test_iter s)
     \<and> disk s' (osp_join (save_dir_of cfg) ''last_checkpoint.pth'') = Some (save_dict s')
     \<and> disk s' (osp_join (save_dir_of cfg) ''best_checkpoint.pth'')
         = (if fless (best_test_acc s) (validation_accuracy vd) then Some (save_dict s')
            else disk s (osp_join (save_dir_of cfg) ''best_checkpoint.pth''))
     \<and> (\<forall>p. p \<noteq> osp_join (save_dir_of cfg) ''best_checkpoint.pth''
            \<and> p \<noteq> osp_join (save_dir_of cfg) ''last_checkpoint.pth'' \<longrightarrow> disk s' p = disk s p)"
proof -
  from assms obtain s1 vd where v: "validate env s = Inr (s1, vd)"
    by (cases "validate env s") (auto simp add: eval_phase_def bind_res_def split: if_splits)
  from validate_state(1) [OF v] have s1: "s1 = emit Validate s" .
  note d = checkpoint_paths_differ [of "save_dir_of cfg"]
  from assms v s1 d d [symmetric] show ?thesis
    by (auto simp add: eval_phase_def bind_res_def save_model_def save_dict_def emit_def Let_def
        save_dir_of_def [symmetric] split: if_splits)
qed

lemma eval_phase_Inr:
  assumes "eval_phase env cfg s = Inr s'"
  shows "\<exists>new. trace s' = trace s @ new \<and> set new \<subseteq> eval_events"
    and "model s' = model s" and "ema s' = ema s" and "optim s' = optim s" and "sched s' = sched s"
    and "curr_iter s' = curr_iter s"
    and "label_bank_w s' = label_bank_w s" and "label_bank_s s' = label_bank_s s"
proof -
  have "(\<exists>new. trace s' = trace s @ new \<and> set new \<subseteq> eval_events)
    \<and> model s' = model s \<and> ema s' = ema s \<and> optim s' = optim s \<and> sched s' = sched s
    \<and> curr_iter s' = curr_iter s
    \<and> label_bank_w s' = label_bank_w s \<and> label_bank_s s' = label_bank_s s"
  proof (cases "(curr_iter s + 1) mod num_eval_iters cfg = 0")
    case False
    from eval_phase_skip [OF False assms] show ?thesis by simp
  next
    case True
    from assms True obtain s1 vd where v: "validate env s = Inr (s1, vd)"
      by (cases "validate env s") (auto simp add: eval_phase_def bind_res_def split: if_splits)
    from validate_state(1) [OF v] have s1: "s1 = emit Validate s" .
    from assms v s1 True show ?thesis
      by (auto simp add: eval_phase_def bind_res_def save_model_def emit_def Let_def eval_events_def split: if_splits)
  qed
  then show "\<exists>new. trace s' = trace s @ new \<and> set new \<subseteq> eval_events"
    and "model s' = model s" and "ema s' = ema s" and "optim s' = optim s" and "sched s' = sched s"
    and "curr_iter s' = curr_iter s"
    and "label_bank_w s' = label_bank_w s" and "label_bank_s s' = label_bank_s s"
    by blast+
qed


lemma train_iter_Inr:
  assumes "train_iter env cfg s b = Inr s'"
  shows "\<exists>s1 l s2 s3. forward_phase env cfg s (fst b) (snd b) = Inr (s1, l)
     \<and> update_phase env cfg s s1 (fst b) (snd b) = Inr s2
     \<and> loss_po l \<noteq> None
     \<and> eval_phase env cfg s2 = Inr s3
     \<and> finish_iter cfg s3 = Inr s'"
  using assms
  by (auto simp add: train_iter_def bind_res_def split: sum.splits prod.splits option.splits)







lemma updates_update:
  "updates ([Backward, OptimStep] @ (if amp then [ScalerUpdate] else []) @ [SchedStep, EmaUpdate, ZeroGrad])
     = [Backward, OptimStep, SchedStep, EmaUpdate]"
  by (simp add: updates_def)

lemma train_iter_success:
  assumes "train_iter env cfg s b = Inr s'"
  shows "\<exists>pre post. trace s' = trace s @ pre @ [Backward, OptimStep]
              @ (if amp_enabled cfg then [ScalerUpdate] else []) @ [SchedStep, EmaUpdate, ZeroGrad] @ post
            \<and> set pre \<subseteq> forward_events \<and> set post \<subseteq> eval_events"
    and "\<exists>ps pg. model s' = snd (optim_step env (amp_enabled cfg) (optim s) ps pg)"
    and "ema s' = net_update env (ema s) (model s')"
    and "curr_iter s' = curr_iter s + 1"
proof -
  from train_iter_Inr [OF assms] obtain s1 l s2 s3 where
    f: "forward_phase env cfg s (fst b) (snd b) = Inr (s1, l)"
    and u: "update_phase env cfg s s1 (fst b) (snd b) = Inr s2"
    and e: "eval_phase env cfg s2 = Inr s3"
    and n: "finish_iter cfg s3 = Inr s'" by blast
  from forward_phase_Inr(1) [OF f] obtain pre where
    pre: "trace s1 = trace s @ pre" "set pre \<subseteq> forward_events" by blast
  from eval_phase_Inr(1) [OF e] obtain post where
    post: "trace s3 = trace s2 @ post" "set post \<subseteq> eval_events" by blast
  note sb = forward_phase_Inr(2) [OF f, unfolded same_books_def]
  note s' = finish_iter_Inr [OF n]
  have "trace s' = trace s @ pre @ [Backward, OptimStep]
              @ (if amp_enabled cfg then [ScalerUpdate] else []) @ [SchedStep, EmaUpdate, ZeroGrad] @ post"
    using pre(1) post(1) update_phase_Inr(1) [OF u] s' by simp
  with pre(2) post(2) show "\<exists>pre post. trace s' = trace s @ pre @ [Backward, OptimStep]
              @ (if amp_enabled cfg then [ScalerUpdate] else []) @ [SchedStep, EmaUpdate, ZeroGrad] @ post
            \<and> set pre \<subseteq> forward_events \<and> set post \<subseteq> eval_events" by blast
  from update_phase_Inr(2) [OF u] obtain ps pg where
    "model s2 = snd (optim_step env (amp_enabled cfg) (optim s1) ps pg)" by blast
  then show "\<exists>ps pg. model s' = snd (optim_step env (amp_enabled cfg) (optim s) ps pg)"
    using sb s' eval_phase_Inr(2) [OF e] by auto
  show "ema s' = net_update env (ema s) (model s')"
    using update_phase_Inr(3) [OF u] sb s' eval_phase_Inr(2,3) [OF e] by simp
  show "curr_iter s' = curr_iter s + 1"
    using update_phase_Inr(4) [OF u] sb s' eval_phase_Inr(6) [OF e] by simp
qed


lemma eval_events_iff:
  "e \<in> eval_events \<longleftrightarrow> (e = Validate \<or> e = TbUpdate \<or> (\<exists>p. e = Save p))"
  by (auto simp add: eval_events_def)

lemma forward_not_eval: "e \<in> forward_events \<Longrightarrow> e \<notin> eval_events"
  by (auto simp add: forward_events_def eval_events_iff)

lemma before_eval:
  assumes "set new \<subseteq> forward_events"
  shows "set (new @ [Backward, OptimStep] @ (if amp then [ScalerUpdate] else [])
           @ [SchedStep, EmaUpdate, ZeroGrad]) \<inter> eval_events = {}"
proof -
  have "e \<notin> eval_events" if "e \<in> set (new @ [Backward, OptimStep] @ (if amp then [ScalerUpdate] else [])
           @ [SchedStep, EmaUpdate, ZeroGrad])" for e
  proof (cases "e \<in> set new")
    case True
    with assms have "e \<in> forward_events" by blast
    then show ?thesis by (rule forward_not_eval)
  next
    case False
    with that have "e \<in> {Backward, OptimStep, ScalerUpdate, SchedStep, EmaUpdate, ZeroGrad}"
      by (auto split: if_splits)
    then show ?thesis by (auto simp add: eval_events_iff)
  qed
  then show ?thesis by blast
qed


lemma train_iter_eval:
  assumes "train_iter env cfg s b = Inr s'"
  shows "\<exists>pre. set pre \<inter> eval_events = {} \<and>
     (if (curr_iter s + 1) mod num_eval_iters cfg = 0 then
        (\<exists>s2 vd. validate env s2 = Inr (emit Validate s2, vd) \<and> ema s2 = ema s'
           \<and> trace s' = trace s @ pre @ [Validate]
                @ (if fless (best_test_acc s) (validation_accuracy vd)
                   then [Save (osp_join (save_dir_of cfg) ''best_checkpoint.pth'')] else [])
                @ [Save (osp_join (save_dir_of cfg) ''last_checkpoint.pth''), TbUpdate]
           \<and> best_test_acc s' =
                (if fless (best_test_acc s) (validation_accuracy vd) then validation_accuracy vd
                 else best_test_acc s)
           \<and> best_test_iter s' =
                (if fless (best_test_acc s) (validation_accuracy vd) then curr_iter s
                 else best_test_iter s)
           \<and> disk s' (osp_join (save_dir_of cfg) ''last_checkpoint.pth'')
                = Some (save_dict (s'\<lparr>curr_iter := curr_iter s\<rparr>))
           \<and> disk s' (osp_join (save_dir_of cfg) ''best_checkpoint.pth'')
                = (if fless (best_test_acc s) (validation_accuracy vd)
                   then Some (save_dict (s'\<lparr>curr_iter := curr_iter s\<rparr>))
                   else disk s (osp_join (save_dir_of cfg) ''best_checkpoint.pth''))
           \<and> (\<forall>p. p \<noteq> osp_join (save_dir_of cfg) ''best_checkpoint.pth''
                  \<and> p \<noteq> osp_join (save_dir_of cfg) ''last_checkpoint.pth''
                  \<longrightarrow> disk s' p = disk s p))
      else trace s' = trace s @ pre \<and> best_test_acc s' = best_test_acc s
           \<and> best_test_iter s' = best_test_iter s \<and> disk s' = disk s)"
proof -
  let ?B = "osp_join (save_dir_of cfg) ''best_checkpoint.pth''"
  let ?L = "osp_join (save_dir_of cfg) ''last_checkpoint.pth''"
  from train_iter_Inr [OF assms] obtain s1 l s2 s3 where
    f: "forward_phase env cfg s (fst b) (snd b) = Inr (s1, l)"
    and u: "update_phase env cfg s s1 (fst b) (snd b) = Inr s2"
    and e: "eval_phase env cfg s2 = Inr s3"
    and n: "finish_iter cfg s3 = Inr s'" by blast
  from forward_phase_Inr(1) [OF f] obtain new where
    new: "trace s1 = trace s @ new" "set new \<subseteq> forward_events" by blast
  have sb: "curr_iter s1 = curr_iter s" "best_test_acc s1 = best_test_acc s"
      "best_test_iter s1 = best_test_iter s" "disk s1 = disk s"
    using forward_phase_Inr(2) [OF f] by (simp_all add: same_books_def)
  let ?pre = "new @ [Backward, OptimStep] @ (if amp_enabled cfg then [ScalerUpdate] else [])
           @ [SchedStep, EmaUpdate, ZeroGrad]"
  have t2: "trace s2 = trace s @ ?pre"
    using new(1) update_phase_Inr(1) [OF u] by simp
  have d: "set ?pre \<inter> eval_events = {}"
    using new(2) by (rule before_eval)
  have c2: "curr_iter s2 = curr_iter s" "best_test_acc s2 = best_test_acc s"
      "best_test_iter s2 = best_test_iter s" "disk s2 = disk s"
    using update_phase_Inr(4,5,6,7) [OF u] sb by simp_all
  have f3: "trace s' = trace s3" "disk s' = disk s3" "ema s' = ema s3"
      "best_test_acc s' = best_test_acc s3" "best_test_iter s' = best_test_iter s3"
    by (simp_all add: finish_iter_Inr [OF n])
  have e3: "ema s3 = ema s2" "curr_iter s3 = curr_iter s"
    using eval_phase_Inr(3,6) [OF e] c2 by simp_all
  have rw: "s'\<lparr>curr_iter := curr_iter s\<rparr> = s3"
    using e3(2) by (simp add: finish_iter_Inr [OF n])
  show ?thesis
  proof (cases "(curr_iter s + 1) mod num_eval_iters cfg = 0")
    case False
    with c2 have "(curr_iter s2 + 1) mod num_eval_iters cfg \<noteq> 0" by simp
    from eval_phase_skip [OF this e] have "s3 = s2" .
    with f3 t2 c2 have "trace s' = trace s @ ?pre \<and> best_test_acc s' = best_test_acc s
           \<and> best_test_iter s' = best_test_iter s \<and> disk s' = disk s" by simp
    with d False show ?thesis
      by (intro exI [of _ ?pre]) (simp only: if_False simp_thms)
  next
    case True
    with c2 have "(curr_iter s2 + 1) mod num_eval_iters cfg = 0" by simp
    from eval_phase_run [OF this e] obtain vd where
      v: "validate env s2 = Inr (emit Validate s2, vd)"
      and t3: "trace s3 = trace s2 @ [Validate]
          @ (if fless (best_test_acc s2) (validation_accuracy vd)
             then [Save ?B] else [])
          @ [Save ?L, TbUpdate]"
      and b3: "best_test_acc s3 = (if fless (best_test_acc s2) (validation_accuracy vd)
                 then validation_accuracy vd else best_test_acc s2)"
      and i3: "best_test_iter s3 = (if fless (best_test_acc s2) (validation_accuracy vd)
                 then curr_iter s2 else best_test_iter s2)"
      and dl: "disk s3 ?L = Some (save_dict s3)"
      and db: "disk s3 ?B = (if fless (best_test_acc s2) (validation_accuracy vd)
                 then Some (save_dict s3) else disk s2 ?B)"
      and dr: "\<forall>p. p \<noteq> ?B \<and> p \<noteq> ?L \<longrightarrow> disk s3 p = disk s2 p"
      by (elim exE conjE)
    have tr: "trace s' = trace s @ ?pre @ [Validate]
                @ (if fless (best_test_acc s) (validation_accuracy vd) then [Save ?B] else [])
                @ [Save ?L, TbUpdate]"
      using t3 t2 c2(2) f3(1) by simp
    have ba: "best_test_acc s' =
                (if fless (best_test_acc s) (validation_accuracy vd) then validation_accuracy vd
                 else best_test_acc s)"
      using b3 c2(2) f3(4) by simp
    have bi: "best_test_iter s' =
                (if fless (best_test_acc s) (validation_accuracy vd) then curr_iter s
                 else best_test_iter s)"
      using i3 c2(1,2,3) f3(5) by simp
    have kl: "disk s' ?L = Some (save_dict (s'\<lparr>curr_iter := curr_iter s\<rparr>))"
      using dl f3(2) by (simp only: rw)
    have kb: "disk s' ?B
                = (if fless (best_test_acc s) (validation_accuracy vd)
                   then Some (save_dict (s'\<lparr>curr_iter := curr_iter s\<rparr>))
                   else disk s ?B)"
      using db f3(2) c2(2,4) by (simp only: rw)
    have kr: "\<forall>p. p \<noteq> ?B \<and> p \<noteq> ?L \<longrightarrow> disk s' p = disk s p"
      using dr f3(2) c2(4) by simp
    have em: "ema s2 = ema s'" using f3(3) e3(1) by simp
    have inner: "\<exists>s2 vd. validate env s2 = Inr (emit Validate s2, vd) \<and> ema s2 = ema s'
           \<and> trace s' = trace s @ ?pre @ [Validate]
                @ (if fless (best_test_acc s) (validation_accuracy vd) then [Save ?B] else [])
                @ [Save ?L, TbUpdate]
           \<and> best_test_acc s' =
                (if fless (best_test_acc s) (validation_accuracy vd) then validation_accuracy vd
                 else best_test_acc s)
           \<and> best_test_iter s' =
                (if fless (best_test_acc s) (validation_accuracy vd) then curr_iter s
                 else best_test_iter s)
           \<and> disk s' ?L = Some (save_dict (s'\<lparr>curr_iter := curr_iter s\<rparr>))
           \<and> disk s' ?B
                = (if fless (best_test_acc s) (validation_accuracy vd)
                   then Some (save_dict (s'\<lparr>curr_iter := curr_iter s\<rparr>))
                   else disk s ?B)
           \<and> (\<forall>p. p \<noteq> ?B \<and> p \<noteq> ?L \<longrightarrow> disk s' p = disk s p)"
      apply (rule exI [of _ s2], rule exI [of _ vd])
      apply (intro conjI)
             apply (rule v)
            apply (rule em)
           apply (rule tr)
          apply (rule ba)
         apply (rule bi)
        apply (rule kl)
       apply (rule kb)
      apply (rule kr)
      done
    show ?thesis
      apply (rule exI [of _ ?pre])
      apply (rule conjI)
       apply (rule d)
      apply (simp only: True refl if_True)
      apply (rule inner)
      done
  qed
qed

lemma train_iter_count:
  assumes "train_iter env cfg s b = Inr s'"
  shows "count_list (trace s') Validate = count_list (trace s) Validate
           + (if (curr_iter s + 1) mod num_eval_iters cfg = 0 then 1 else 0)"
proof -
  from train_iter_Inr [OF assms] obtain s1 l s2 s3 where
    f: "forward_phase env cfg s (fst b) (snd b) = Inr (s1, l)"
    and u: "update_phase env cfg s s1 (fst b) (snd b) = Inr s2"
    and e: "eval_phase env cfg s2 = Inr s3"
    and n: "finish_iter cfg s3 = Inr s'" by blast
  from forward_phase_Inr(1) [OF f] obtain new where
    new: "trace s1 = trace s @ new" "set new \<subseteq> forward_events" by blast
  have "Validate \<notin> forward_events" by (simp add: forward_events_def)
  with new(2) have "Validate \<notin> set new" by blast
  then have p: "count_list new Validate = 0" by (simp add: count_list_0_iff)
  have c2: "curr_iter s2 = curr_iter s"
    using update_phase_Inr(4) [OF u] forward_phase_Inr(2) [OF f] by (simp add: same_books_def)
  have t2: "count_list (trace s2) Validate = count_list (trace s) Validate"
    using new(1) p update_phase_Inr(1) [OF u] by simp
  have t': "trace s' = trace s3" by (simp add: finish_iter_Inr [OF n])
  show ?thesis
  proof (cases "(curr_iter s + 1) mod num_eval_iters cfg = 0")
    case True
    with c2 have "(curr_iter s2 + 1) mod num_eval_iters cfg = 0" by simp
    from eval_phase_run [OF this e] obtain vd :: validate_dict where
      "trace s3 = trace s2 @ [Validate]
          @ (if fless (best_test_acc s2) (validation_accuracy vd)
             then [Save (osp_join (save_dir_of cfg) ''best_checkpoint.pth'')] else [])
          @ [Save (osp_join (save_dir_of cfg) ''last_checkpoint.pth''), TbUpdate]"
      by (elim exE conjE)
    with t2 t' True show ?thesis by simp
  next
    case False
    with c2 have "(curr_iter s2 + 1) mod num_eval_iters cfg \<noteq> 0" by simp
    from eval_phase_skip [OF this e] t2 t' False show ?thesis by simp
  qed
qed

lemma train_loop_count:
  assumes "train_loop env cfg s bs = Inr s'"
  shows "curr_iter s \<le> curr_iter s'
    \<and> count_list (trace s') Validate = count_list (trace s) Validate
         + length (filter (\<lambda>i. (i + 1) mod num_eval_iters cfg = 0) [curr_iter s..curr_iter s' - 1])"
  using assms
proof (induction bs arbitrary: s)
  case Nil
  then show ?case by simp
next
  case (Cons b bs)
  show ?case
  proof (cases "curr_iter s \<ge> num_train_iters cfg")
    case True
    with Cons.prems show ?thesis by simp
  next
    case False
    with Cons.prems obtain s1 where
      i: "train_iter env cfg s b = Inr s1" and r: "train_loop env cfg s1 bs = Inr s'"
      by (auto split: sum.splits)
    from train_iter_success(4) [OF i] have c1: "curr_iter s1 = curr_iter s + 1" .
    from Cons.IH [OF r] c1 have le: "curr_iter s + 1 \<le> curr_iter s'"
      and n: "count_list (trace s') Validate = count_list (trace s1) Validate
         + length (filter (\<lambda>i. (i + 1) mod num_eval_iters cfg = 0) [curr_iter s + 1..curr_iter s' - 1])"
      by simp_all
    from le have u: "[curr_iter s..curr_iter s' - 1] = curr_iter s # [curr_iter s + 1..curr_iter s' - 1]"
      by (simp add: upto_rec1)
    from le n train_iter_count [OF i] show ?thesis
      by (simp add: u)
  qed
qed

subsection \<open>Floats\<close>

lemma fmul_NaN_right: "fmul g NaN = NaN"
  by (cases g) simp_all

lemma fadd_fsub_cancel: "v \<noteq> NaN \<Longrightarrow> fsub (fadd p v) v = p"
  by (cases p; cases v) simp_all

lemma fsum_Nil: "fsum [] = Fin 0"
  by (simp add: fsum_def)

lemma fsum_Cons: "fsum (x # xs) = fadd x (fsum xs)"
  by (simp add: fsum_def)

lemma fadd_Fin: "fadd x y = Fin r \<Longrightarrow> x \<noteq> NaN \<and> y \<noteq> NaN"
  by (cases x; cases y) simp_all

lemma fsum_finite: "fsum xs = Fin r \<Longrightarrow> NaN \<notin> set xs"
proof (induction xs arbitrary: r)
  case Nil
  then show ?case by simp
next
  case (Cons x xs)
  from Cons.prems have a: "x \<noteq> NaN" "fsum xs \<noteq> NaN"
    using fadd_Fin [of x "fsum xs" r] by (simp_all add: fsum_Cons)
  then obtain q where "fsum xs = Fin q" by (cases "fsum xs") simp_all
  from Cons.IH [OF this] a show ?case by auto
qed

lemma fsum_replicate: "fsum (replicate n (Fin a)) = Fin (real n * a)"
  by (induction n) (simp_all add: fsum_Nil fsum_Cons algebra_simps)

subsection \<open>Perturbing and restoring lists of parameters\<close>

lemma map2_add_sub:
  "length v = length p \<Longrightarrow> NaN \<notin> set v \<Longrightarrow> map2 fsub (map2 fadd p v) v = p"
  by (induction p v rule: list_induct2') (auto simp add: fadd_fsub_cancel)

lemma add_eps_restore:
  assumes "add_eps ps vs = Some ps'"
    and "length gs = length vs"
    and "\<forall>v. Some v \<in> set vs \<longrightarrow> NaN \<notin> set v"
    and "restore ps' pg vs gs = (None, ps'', pg')"
  shows "ps'' = ps"
  using assms
proof (induction ps vs arbitrary: ps' ps'' pg pg' gs rule: add_eps.induct)
  case (1 vs)
  then show ?case by simp
next
  case (2 p ps)
  then show ?case by auto
next
  case (3 p ps vs)
  then show ?case
    by (cases gs) (auto split: prod.splits)
next
  case (4 p ps v vs)
  then show ?case
    by (cases gs) (auto split: prod.splits if_splits option.splits simp: map2_add_sub)
qed

lemma norm_list_all_None:
  "list_all (\<lambda>g. g = None) gs \<Longrightarrow> norm_list gs = None"
  by (simp add: norm_list_def list_all_iff filter_empty_conv)

lemma norm_list_finite:
  assumes "norm_list gs = Some (Fin n)" and "Some v \<in> set gs"
  shows "NaN \<notin> set v"
proof
  assume x: "NaN \<in> set v"
  let ?xs = "map the (filter (\<lambda>x. x \<noteq> None) gs)"
  from assms(2) have v: "v \<in> set ?xs" by force
  have ne: "?xs \<noteq> []"
  proof
    assume "?xs = []"
    with v show False by (simp only: list.set empty_iff)
  qed
  with assms(1) have "fsqrt (fsum (map (\<lambda>v. fmul v v) (concat ?xs))) = Fin n"
    by (simp add: norm_list_def split: list.splits)
  then obtain q where "fsum (map (\<lambda>v. fmul v v) (concat ?xs)) = Fin q"
    by (cases "fsum (map (\<lambda>v. fmul v v) (concat ?xs))") simp_all
  from fsum_finite [OF this] have a: "NaN \<notin> set (map (\<lambda>v. fmul v v) (concat ?xs))" .
  from x v have "NaN \<in> set (concat ?xs)" by auto
  then have "fmul NaN NaN \<in> (\<lambda>v. fmul v v) ` set (concat ?xs)" by (rule imageI)
  then have "NaN \<in> set (map (\<lambda>v. fmul v v) (concat ?xs))" by simp
  with a show False by simp
qed

lemma add_eps_length: "add_eps ps vs = Some ps' \<Longrightarrow> length ps' = length ps"
  by (induction ps vs arbitrary: ps' rule: add_eps.induct) (auto split: if_splits)

lemma add_eps_nth:
  assumes "add_eps ps vs = Some ps'" and "i < length ps"
  shows "ps' ! i = (if i < length vs then (case vs ! i of None \<Rightarrow> ps ! i | Some v \<Rightarrow> map2 fadd (ps ! i) v)
                    else ps ! i)"
  using assms
proof (induction ps vs arbitrary: ps' i rule: add_eps.induct)
  case (1 vs)
  then show ?case by simp
next
  case (2 p ps)
  then show ?case by auto
next
  case (3 p ps vs)
  then show ?case by (cases i) (auto split: option.splits)
next
  case (4 p ps v vs)
  then show ?case by (cases i) (auto split: if_splits option.splits)
qed

lemma perturb_Inr_parts:
  assumes "perturb env cfg s img n lbl = Inr s'"
  shows "\<exists>nrm. norm_list (grad_w s') = Some nrm
     \<and> grad_w s' = autograd_grad env (model s) img n lbl
     \<and> eps s' = map (map_option (map (\<lambda>g. fmul g (fdiv (Fin (rho cfg)) nrm)))) (grad_w s')
     \<and> add_eps (model s) (eps s') = Some (model s')"
  using assms
  by (auto simp add: perturb_def Let_def emit_def split: option.splits)

subsection \<open>The small configuration, evaluated\<close>

lemmas ex_defs = ex_env_def ex_cfg_def ex_trainer_def ex_lb_def ex_ulb_def ex_start_def

lemma sqrt25: "sqrt 25 = 5"
  using real_sqrt_abs [of 5] by simp

lemma ex_norm: "norm_list [Some [Fin 3, Fin 4]] = Some (Fin 5)"
  by (simp add: norm_list_def fsum_def sqrt25)

lemma ex_iter:
  "\<exists>s'. train_iter ex_env ex_cfg ex_start (ex_lb, ex_ulb) = Inr s'
     \<and> trace s' = [EnableRunningStats, Forward, CELoss, AutogradGrad,
               DisableRunningStats, Forward, CELoss, SatLoss, SafLoss,
               MSELoss, Backward, OptimStep, SchedStep, EmaUpdate, ZeroGrad,
               Validate, Save ''log/run/out/best_checkpoint.pth'',
               Save ''log/run/out/last_checkpoint.pth'', TbUpdate]
     \<and> model s' = [[Fin 2, Fin 3]] \<and> ema s' = [[Fin 2, Fin 3]] \<and> curr_iter s' = 1
     \<and> best_test_acc s' = Fin 1 \<and> best_test_iter s' = 0"
  by (simp add: train_iter_def forward_phase_def perturb_def ex_norm bind_res_def sharp_losses_def po_term_def
      gather_def scatter_def msub_def mse_loss_def mean_def same_shape_def softmax_def chunk2_def fsum_def
      update_phase_def eval_phase_def finish_iter_def save_model_def save_dict_def osp_join_def
      validate_def row_max_def accuracy_score_def
      emit_def Let_def ex_defs)

lemma chunk2_rows: "length t \<noteq> 1 \<Longrightarrow> \<exists>a b. chunk2 t = Some (a, b)"
  by (simp add: chunk2_def)

lemma ex_start_train:
  "num_classes c = 2 \<Longrightarrow>
   train ex_env c ex_trainer = train_loop ex_env c ex_start [(ex_lb, ex_ulb)]"
  by (simp add: train_def ex_start_def ex_env_def numeral_2_eq_2)

lemma ex_iter2:
  "\<exists>s'. train_iter ex_env (ex_cfg\<lparr>num_eval_iters := 2\<rparr>) ex_start (ex_lb, ex_ulb) = Inr s'
     \<and> trace s' = [EnableRunningStats, Forward, CELoss, AutogradGrad,
               DisableRunningStats, Forward, CELoss, SatLoss, SafLoss,
               MSELoss, Backward, OptimStep, SchedStep, EmaUpdate, ZeroGrad]
     \<and> curr_iter s' = 1 \<and> disk s' = (\<lambda>path. None)"
  by (simp add: train_iter_def forward_phase_def perturb_def ex_norm bind_res_def sharp_losses_def po_term_def
      gather_def scatter_def msub_def mse_loss_def mean_def same_shape_def softmax_def chunk2_def fsum_def
      update_phase_def eval_phase_def finish_iter_def
      emit_def Let_def ex_defs)

text \<open>The same iteration with a gradient of zeros, and with no gradient at all.\<close>

lemma ex_iter_zero:
  "\<exists>s'. train_iter (ex_env\<lparr>autograd_grad := (\<lambda>ps img n lbl. [Some [Fin 0, Fin 0]])\<rparr>)
           ex_cfg ex_start (ex_lb, ex_ulb) = Inr s'
     \<and> eps s' = [Some [NaN, NaN]] \<and> model s' = [[NaN, NaN]] \<and> ema s' = [[NaN, NaN]]
     \<and> label_bank_w s' = [[NaN, NaN], [Fin (1 / 2), Fin (1 / 2)]]
     \<and> (\<exists>ck. disk s' ''log/run/out/last_checkpoint.pth'' = Some ck
            \<and> model_state_dict ck = [[NaN, NaN]] \<and> ema_state_dict ck = [[NaN, NaN]])"
  by (simp add: train_iter_def forward_phase_def perturb_def norm_list_def bind_res_def sharp_losses_def po_term_def
      gather_def scatter_def msub_def mse_loss_def mean_def same_shape_def softmax_def chunk2_def fsum_def
      update_phase_def eval_phase_def finish_iter_def save_model_def save_dict_def osp_join_def
      validate_def row_max_def accuracy_score_def
      emit_def Let_def ex_defs)

lemma ex_iter_none:
  "\<exists>s'. train_iter (ex_env\<lparr>autograd_grad := (\<lambda>ps img n lbl. [None])\<rparr>)
           ex_cfg ex_start (ex_lb, ex_ulb) = Inl (RuntimeError, s')
     \<and> trace s' = [EnableRunningStats, Forward, CELoss, AutogradGrad]
     \<and> model s' = [[Fin 1, Fin 2]]"
  by (simp add: train_iter_def forward_phase_def perturb_def norm_list_def bind_res_def chunk2_def fsum_def
      emit_def Let_def ex_defs)

subsection \<open>The claims\<close>

text \<open>
  C1. Checkpoint round-trip: when a trainer \<open>t\<close> with the parameter shapes of \<open>s\<close> (\<open>s\<close>
  itself, or \<open>s\<close> after more training) reads the file that \<open>__save__model__\<close> wrote for
  \<open>s\<close>, \<open>__load__model__\<close> succeeds and leaves in it the iteration counter, the best
  accuracy and its iteration, and the statistics \<open>tau_t\<close>, \<open>p_t\<close>, \<open>label_hist\<close> that \<open>s\<close>
  had when it was saved.
\<close>

theorem checkpoint_round_trip:
  assumes "same_shape (model s) (model t)"
    and "disk t = disk (save_model s save_dir save_name)"
  shows "\<exists>t'. load_model t (osp_join save_dir save_name) = Inr t'
       \<and> curr_iter t' = curr_iter s
       \<and> best_test_acc t' = best_test_acc s
       \<and> best_test_iter t' = best_test_iter s
       \<and> tau_t t' = tau_t s
       \<and> p_t t' = p_t s
       \<and> label_hist t' = label_hist s"
  using assms by (simp add: load_model_def save_model_def save_dict_def emit_def)

theorem checkpoint_round_trip_witness:
  "same_shape (model ex_trainer) (model (ex_trainer\<lparr>curr_iter := 7, tau_t := Fin 1, disk := disk (save_model ex_trainer ''out'' ''last_checkpoint.pth'')\<rparr>))
   \<and> disk (ex_trainer\<lparr>curr_iter := 7, tau_t := Fin 1, disk := disk (save_model ex_trainer ''out'' ''last_checkpoint.pth'')\<rparr>)
       = disk (save_model ex_trainer ''out'' ''last_checkpoint.pth'')
   \<and> (\<exists>t'. load_model (ex_trainer\<lparr>curr_iter := 7, tau_t := Fin 1, disk := disk (save_model ex_trainer ''out'' ''last_checkpoint.pth'')\<rparr>)
             (osp_join ''out'' ''last_checkpoint.pth'') = Inr t'
       \<and> curr_iter t' = 0 \<and> best_test_acc t' = Fin (- 1) \<and> best_test_iter t' = - 1
       \<and> tau_t t' = Fin (1 / 2) \<and> p_t t' = [Fin (1 / 2), Fin (1 / 2)]
       \<and> label_hist t' = [Fin (1 / 2), Fin (1 / 2)])"
proof -
  let ?t = "ex_trainer\<lparr>curr_iter := 7, tau_t := Fin 1, disk := disk (save_model ex_trainer ''out'' ''last_checkpoint.pth'')\<rparr>"
  have h1: "same_shape (model ex_trainer) (model ?t)" by (simp add: same_shape_def)
  have h2: "disk ?t = disk (save_model ex_trainer ''out'' ''last_checkpoint.pth'')" by simp
  from checkpoint_round_trip [OF h1 h2] h1 h2 show ?thesis
    by (simp add: ex_trainer_def)
qed

text \<open>
  C9. When the weak and the strong unlabeled batch of an iteration have different sizes,
  the iteration stops at the assertion: the outcome is AssertionError and the trainer it
  carries is the one the iteration started from, with no forward pass or loss in its trace
  and no batch cut to the size of the other.
\<close>

theorem mismatch_asserts:
  assumes "length (img_ulb_w batch_ulb) \<noteq> length (img_ulb_s batch_ulb)"
  shows "train_iter env cfg s (batch_lb, batch_ulb) = Inl (AssertionError, s)"
  using assms by (simp add: train_iter_def forward_phase_def bind_res_def)

theorem mismatch_asserts_witness:
  "length (img_ulb_w (ex_ulb\<lparr>img_ulb_s := [2, 3]\<rparr>)) \<noteq> length (img_ulb_s (ex_ulb\<lparr>img_ulb_s := [2, 3]\<rparr>))
   \<and> train_iter ex_env ex_cfg ex_trainer (ex_lb, ex_ulb\<lparr>img_ulb_s := [2, 3]\<rparr>) = Inl (AssertionError, ex_trainer)"
proof -
  have h: "length (img_ulb_w (ex_ulb\<lparr>img_ulb_s := [2, 3]\<rparr>)) \<noteq> length (img_ulb_s (ex_ulb\<lparr>img_ulb_s := [2, 3]\<rparr>))"
    by (simp add: ex_ulb_def)
  from mismatch_asserts [OF h] h show ?thesis by simp
qed



text \<open>
  C10. With sharpness-aware mode off, no iteration of \<open>train\<close> completes: every outcome
  is an error. When the two unlabeled views have one size and the network returns one row
  of logits per image, the error is the NameError raised where \<open>log_dict\<close> reads
  \<open>loss_po\<close>, a name bound only in the sharpness-aware branch; it comes after the
  losses, the backward pass and the steps of optimizer, scheduler and EMA model.
\<close>

theorem plain_path_fails:
  assumes "\<not> x_sharp cfg"
  shows "(\<exists>e s'. train_iter env cfg s (lb, ulb) = Inl (e, s'))
    \<and> (length (img_ulb_w ulb) = length (img_ulb_s ulb)
        \<and> length (net_fwd env (model s) (img_lb_w lb @ img_ulb_w ulb @ img_ulb_s ulb))
            = length (img_lb_w lb @ img_ulb_w ulb @ img_ulb_s ulb)
       \<longrightarrow> (\<exists>s'. train_iter env cfg s (lb, ulb) = Inl (NameError, s')
             \<and> trace s' = trace s @ [Forward, CELoss, SatLoss, SafLoss, Backward, OptimStep]
                  @ (if amp_enabled cfg then [ScalerUpdate] else [])
                  @ [SchedStep, EmaUpdate, ZeroGrad]))"
proof
  show "\<exists>e s'. train_iter env cfg s (lb, ulb) = Inl (e, s')"
  proof (cases "train_iter env cfg s (lb, ulb)")
    case (Inl a)
    then show ?thesis by (cases a) simp
  next
    case (Inr s')
    from train_iter_Inr [OF Inr] obtain s1 l where
      f: "forward_phase env cfg s lb ulb = Inr (s1, l)" and "loss_po l \<noteq> None" by auto
    with forward_phase_plain(4) [OF assms f] show ?thesis by simp
  qed
next
  show "length (img_ulb_w ulb) = length (img_ulb_s ulb)
        \<and> length (net_fwd env (model s) (img_lb_w lb @ img_ulb_w ulb @ img_ulb_s ulb))
            = length (img_lb_w lb @ img_ulb_w ulb @ img_ulb_s ulb)
       \<longrightarrow> (\<exists>s'. train_iter env cfg s (lb, ulb) = Inl (NameError, s')
             \<and> trace s' = trace s @ [Forward, CELoss, SatLoss, SafLoss, Backward, OptimStep]
                  @ (if amp_enabled cfg then [ScalerUpdate] else [])
                  @ [SchedStep, EmaUpdate, ZeroGrad])"
  proof
    let ?img = "img_lb_w lb @ img_ulb_w ulb @ img_ulb_s ulb"
    assume h: "length (img_ulb_w ulb) = length (img_ulb_s ulb)
        \<and> length (net_fwd env (model s) ?img) = length ?img"
    then have "length (drop (length (img_lb_w lb)) (net_fwd env (model s) ?img)) \<noteq> 1"
      by simp presburger
    then obtain lw ls where
      c: "chunk2 (drop (length (img_lb_w lb)) (net_fwd env (model s) ?img)) = Some (lw, ls)"
      using chunk2_rows by blast
    with assms h have "\<exists>r. forward_phase env cfg s lb ulb = Inr r"
      by (simp add: forward_phase_def Let_def)
    then obtain s1 l where f: "forward_phase env cfg s lb ulb = Inr (s1, l)"
      by auto
    note p = forward_phase_plain [OF assms f]
    from assms have "\<exists>s2. update_phase env cfg s s1 lb ulb = Inr s2"
      by (simp add: update_phase_def Let_def)
    then obtain s2 where u: "update_phase env cfg s s1 lb ulb = Inr s2" by blast
    from f u p(4) have "train_iter env cfg s (lb, ulb) = Inl (NameError, s2)"
      by (simp add: train_iter_def bind_res_def)
    moreover have "trace s2 = trace s @ [Forward, CELoss, SatLoss, SafLoss, Backward, OptimStep]
                  @ (if amp_enabled cfg then [ScalerUpdate] else [])
                  @ [SchedStep, EmaUpdate, ZeroGrad]"
      using update_phase_Inr(1) [OF u] p(1) by simp
    ultimately show "\<exists>s'. train_iter env cfg s (lb, ulb) = Inl (NameError, s')
             \<and> trace s' = trace s @ [Forward, CELoss, SatLoss, SafLoss, Backward, OptimStep]
                  @ (if amp_enabled cfg then [ScalerUpdate] else [])
                  @ [SchedStep, EmaUpdate, ZeroGrad]" by blast
  qed
qed

theorem plain_path_fails_witness:
  "\<not> x_sharp (ex_cfg\<lparr>x_sharp := False\<rparr>)
   \<and> length (img_ulb_w ex_ulb) = length (img_ulb_s ex_ulb)
   \<and> length (net_fwd ex_env (model ex_start) (img_lb_w ex_lb @ img_ulb_w ex_ulb @ img_ulb_s ex_ulb))
       = length (img_lb_w ex_lb @ img_ulb_w ex_ulb @ img_ulb_s ex_ulb)
   \<and> (\<exists>s'. train_iter ex_env (ex_cfg\<lparr>x_sharp := False\<rparr>) ex_start (ex_lb, ex_ulb) = Inl (NameError, s')
         \<and> trace s' = [Forward, CELoss, SatLoss, SafLoss, Backward, OptimStep,
                        SchedStep, EmaUpdate, ZeroGrad])"
proof -
  have h1: "\<not> x_sharp (ex_cfg\<lparr>x_sharp := False\<rparr>)" by simp
  have h2: "length (img_ulb_w ex_ulb) = length (img_ulb_s ex_ulb)
     \<and> length (net_fwd ex_env (model ex_start) (img_lb_w ex_lb @ img_ulb_w ex_ulb @ img_ulb_s ex_ulb))
       = length (img_lb_w ex_lb @ img_ulb_w ex_ulb @ img_ulb_s ex_ulb)"
    by (simp add: ex_defs)
  have h3: "trace ex_start = []" "amp_enabled (ex_cfg\<lparr>x_sharp := False\<rparr>) = False"
    by (simp_all add: ex_defs)
  from plain_path_fails [OF h1, of ex_env ex_start ex_lb ex_ulb] h2 h3 h1 show ?thesis
    by simp
qed

text \<open>
  C6, as stated, fails: \<open>train\<close> runs \<open>validate\<close> only inside its loop. Here the loop ends
  after one iteration with \<open>num_eval_iters = 2\<close>: no evaluation has run and no checkpoint
  has been written.
\<close>

theorem eval_at_loop_end_counterexample:
  "\<exists>s'. train ex_env (ex_cfg\<lparr>num_eval_iters := 2\<rparr>) ex_trainer = Inr s'
     \<and> curr_iter s' = 1
     \<and> trace s' = [EnableRunningStats, Forward, CELoss, AutogradGrad,
               DisableRunningStats, Forward, CELoss, SatLoss, SafLoss,
               MSELoss, Backward, OptimStep, SchedStep, EmaUpdate, ZeroGrad]
     \<and> disk s' = (\<lambda>path. None)"
proof -
  from ex_iter2 obtain s' where
    h: "train_iter ex_env (ex_cfg\<lparr>num_eval_iters := 2\<rparr>) ex_start (ex_lb, ex_ulb) = Inr s'"
    and v: "trace s' = [EnableRunningStats, Forward, CELoss, AutogradGrad,
               DisableRunningStats, Forward, CELoss, SatLoss, SafLoss,
               MSELoss, Backward, OptimStep, SchedStep, EmaUpdate, ZeroGrad]"
       "curr_iter s' = 1" "disk s' = (\<lambda>path. None)" by blast
  have "train ex_env (ex_cfg\<lparr>num_eval_iters := 2\<rparr>) ex_trainer = Inr s'"
    using h by (simp add: ex_start_train ex_cfg_def) (simp add: ex_start_def ex_trainer_def)
  with v show ?thesis by blast
qed

text \<open>
  C6, amended. An iteration of \<open>train\<close> that completes runs \<open>validate\<close> exactly when
  \<open>(curr_iter + 1) mod num_eval_iters = 0\<close>, after all its updates. That evaluation
  raises the best accuracy and its iteration exactly when the new accuracy is strictly
  above the best so far, and then writes the best checkpoint; it always writes the last
  checkpoint; both files hold the state the iteration ends in, with the counter of the
  iteration; no other file changes. An iteration that does not evaluate leaves the best
  accuracy, its iteration and every file as they were. \<open>train\<close> does not evaluate again
  when its loop ends: the evaluations of a whole run are as many as the iterations \<open>i\<close>
  it ran with \<open>(i + 1) mod num_eval_iters = 0\<close>.
\<close>

theorem eval_cadence:
  "(train_iter env cfg s b = Inr s' \<longrightarrow>
      (\<exists>pre. set pre \<inter> eval_events = {} \<and>
         (if (curr_iter s + 1) mod num_eval_iters cfg = 0 then
            (\<exists>s2 vd. validate env s2 = Inr (emit Validate s2, vd) \<and> ema s2 = ema s'
               \<and> trace s' = trace s @ pre @ [Validate]
                    @ (if fless (best_test_acc s) (validation_accuracy vd)
                       then [Save (osp_join (save_dir_of cfg) ''best_checkpoint.pth'')] else [])
                    @ [Save (osp_join (save_dir_of cfg) ''last_checkpoint.pth''), TbUpdate]
               \<and> best_test_acc s' =
                    (if fless (best_test_acc s) (validation_accuracy vd) then validation_accuracy vd
                     else best_test_acc s)
               \<and> best_test_iter s' =
                    (if fless (best_test_acc s) (validation_accuracy vd) then curr_iter s
                     else best_test_iter s)
               \<and> disk s' (osp_join (save_dir_of cfg) ''last_checkpoint.pth'')
                    = Some (save_dict (s'\<lparr>curr_iter := curr_iter s\<rparr>))
               \<and> disk s' (osp_join (save_dir_of cfg) ''best_checkpoint.pth'')
                    = (if fless (best_test_acc s) (validation_accuracy vd)
                       then Some (save_dict (s'\<lparr>curr_iter := curr_iter s\<rparr>))
                       else disk s (osp_join (save_dir_of cfg) ''best_checkpoint.pth''))
               \<and> (\<forall>p. p \<noteq> osp_join (save_dir_of cfg) ''best_checkpoint.pth''
                      \<and> p \<noteq> osp_join (save_dir_of cfg) ''last_checkpoint.pth''
                      \<longrightarrow> disk s' p = disk s p))
          else trace s' = trace s @ pre \<and> best_test_acc s' = best_test_acc s
               \<and> best_test_iter s' = best_test_iter s \<and> disk s' = disk s)))
   \<and> (train env cfg s0 = Inr s'' \<longrightarrow>
        count_list (trace s'') Validate = count_list (trace s0) Validate
          + length (filter (\<lambda>i. (i + 1) mod num_eval_iters cfg = 0)
                      [curr_iter s0..curr_iter s'' - 1]))"
proof (intro conjI impI)
  assume "train_iter env cfg s b = Inr s'"
  then show "
      (\<exists>pre. set pre \<inter> eval_events = {} \<and>
         (if (curr_iter s + 1) mod num_eval_iters cfg = 0 then
            (\<exists>s2 vd. validate env s2 = Inr (emit Validate s2, vd) \<and> ema s2 = ema s'
               \<and> trace s' = trace s @ pre @ [Validate]
                    @ (if fless (best_test_acc s) (validation_accuracy vd)
                       then [Save (osp_join (save_dir_of cfg) ''best_checkpoint.pth'')] else [])
                    @ [Save (osp_join (save_dir_of cfg) ''last_checkpoint.pth''), TbUpdate]
               \<and> best_test_acc s' =
                    (if fless (best_test_acc s) (validation_accuracy vd) then validation_accuracy vd
                     else best_test_acc s)
               \<and> best_test_iter s' =
                    (if fless (best_test_acc s) (validation_accuracy vd) then curr_iter s
                     else best_test_iter s)
               \<and> disk s' (osp_join (save_dir_of cfg) ''last_checkpoint.pth'')
                    = Some (save_dict (s'\<lparr>curr_iter := curr_iter s\<rparr>))
               \<and> disk s' (osp_join (save_dir_of cfg) ''best_checkpoint.pth'')
                    = (if fless (best_test_acc s) (validation_accuracy vd)
                       then Some (save_dict (s'\<lparr>curr_iter := curr_iter s\<rparr>))
                       else disk s (osp_join (save_dir_of cfg) ''best_checkpoint.pth''))
               \<and> (\<forall>p. p \<noteq> osp_join (save_dir_of cfg) ''best_checkpoint.pth''
                      \<and> p \<noteq> osp_join (save_dir_of cfg) ''last_checkpoint.pth''
                      \<longrightarrow> disk s' p = disk s p))
          else trace s' = trace s @ pre \<and> best_test_acc s' = best_test_acc s
               \<and> best_test_iter s' = best_test_iter s \<and> disk s' = disk s))"
    by (rule train_iter_eval)
next
  assume "train env cfg s0 = Inr s''"
  then have "train_loop env cfg
       (s0\<lparr> label_bank_w :=
              replicate (num_samples env)
                (replicate (num_classes cfg) (fdiv (Fin 1) (Fin (real (num_classes cfg))))),
            label_bank_s :=
              replicate (num_samples env)
                (replicate (num_classes cfg) (fdiv (Fin 1) (Fin (real (num_classes cfg))))) \<rparr>)
       (zip (train_lb_dl env) (train_ulb_dl env)) = Inr s''"
    by (simp add: train_def)
  from train_loop_count [OF this]
  show " count_list (trace s'') Validate = count_list (trace s0) Validate
          + length (filter (\<lambda>i. (i + 1) mod num_eval_iters cfg = 0)
                      [curr_iter s0..curr_iter s'' - 1]) "
    by simp
qed

theorem eval_cadence_witness:
  "\<exists>s'. train_iter ex_env ex_cfg ex_start (ex_lb, ex_ulb) = Inr s'
     \<and> train ex_env ex_cfg ex_trainer = Inr s'
     \<and>
      (\<exists>pre. set pre \<inter> eval_events = {} \<and>
            (\<exists>s2 vd. validate ex_env s2 = Inr (emit Validate s2, vd) \<and> ema s2 = ema s'
               \<and> trace s' = trace ex_start @ pre @ [Validate]
                    @ (if fless (best_test_acc ex_start) (validation_accuracy vd)
                       then [Save (osp_join (save_dir_of ex_cfg) ''best_checkpoint.pth'')] else [])
                    @ [Save (osp_join (save_dir_of ex_cfg) ''last_checkpoint.pth''), TbUpdate]
               \<and> best_test_acc s' =
                    (if fless (best_test_acc ex_start) (validation_accuracy vd) then validation_accuracy vd
                     else best_test_acc ex_start)
               \<and> best_test_iter s' =
                    (if fless (best_test_acc ex_start) (validation_accuracy vd) then curr_iter ex_start
                     else best_test_iter ex_start)
               \<and> disk s' (osp_join (save_dir_of ex_cfg) ''last_checkpoint.pth'')
                    = Some (save_dict (s'\<lparr>curr_iter := curr_iter ex_start\<rparr>))
               \<and> disk s' (osp_join (save_dir_of ex_cfg) ''best_checkpoint.pth'')
                    = (if fless (best_test_acc ex_start) (validation_accuracy vd)
                       then Some (save_dict (s'\<lparr>curr_iter := curr_iter ex_start\<rparr>))
                       else disk ex_start (osp_join (save_dir_of ex_cfg) ''best_checkpoint.pth''))
               \<and> (\<forall>p. p \<noteq> osp_join (save_dir_of ex_cfg) ''best_checkpoint.pth''
                      \<and> p \<noteq> osp_join (save_dir_of ex_cfg) ''last_checkpoint.pth''
                      \<longrightarrow> disk s' p = disk ex_start p)))
     \<and> best_test_acc s' = Fin 1 \<and> best_test_iter s' = 0
     \<and> count_list (trace s') Validate = 1"
proof -
  from ex_iter obtain s' where
    h: "train_iter ex_env ex_cfg ex_start (ex_lb, ex_ulb) = Inr s'"
    and v: "curr_iter s' = 1" "best_test_acc s' = Fin 1" "best_test_iter s' = 0" by blast
  have ht: "train ex_env ex_cfg ex_trainer = Inr s'"
    using h by (simp add: ex_start_train ex_cfg_def) (simp add: ex_start_def ex_trainer_def)
  have c: "(curr_iter ex_start + 1) mod num_eval_iters ex_cfg = 0"
    by (simp add: ex_defs)
  have z: "count_list (trace ex_trainer) Validate = 0"
      "length (filter (\<lambda>i. (i + 1) mod num_eval_iters ex_cfg = 0) [curr_iter ex_trainer..curr_iter s' - 1]) = 1"
    by (simp_all add: v ex_trainer_def ex_cfg_def)
  note e = eval_cadence [of ex_env ex_cfg ex_start "(ex_lb, ex_ulb)" s' ex_trainer s']
  from e h have a: "
      (\<exists>pre. set pre \<inter> eval_events = {} \<and>
         (if (curr_iter ex_start + 1) mod num_eval_iters ex_cfg = 0 then
            (\<exists>s2 vd. validate ex_env s2 = Inr (emit Validate s2, vd) \<and> ema s2 = ema s'
               \<and> trace s' = trace ex_start @ pre @ [Validate]
                    @ (if fless (best_test_acc ex_start) (validation_accuracy vd)
                       then [Save (osp_join (save_dir_of ex_cfg) ''best_checkpoint.pth'')] else [])
                    @ [Save (osp_join (save_dir_of ex_cfg) ''last_checkpoint.pth''), TbUpdate]
               \<and> best_test_acc s' =
                    (if fless (best_test_acc ex_start) (validation_accuracy vd) then validation_accuracy vd
                     else best_test_acc ex_start)
               \<and> best_test_iter s' =
                    (if fless (best_test_acc ex_start) (validation_accuracy vd) then curr_iter ex_start
                     else best_test_iter ex_start)
               \<and> disk s' (osp_join (save_dir_of ex_cfg) ''last_checkpoint.pth'')
                    = Some (save_dict (s'\<lparr>curr_iter := curr_iter ex_start\<rparr>))
               \<and> disk s' (osp_join (save_dir_of ex_cfg) ''best_checkpoint.pth'')
                    = (if fless (best_test_acc ex_start) (validation_accuracy vd)
                       then Some (save_dict (s'\<lparr>curr_iter := curr_iter ex_start\<rparr>))
                       else disk ex_start (osp_join (save_dir_of ex_cfg) ''best_checkpoint.pth''))
               \<and> (\<forall>p. p \<noteq> osp_join (save_dir_of ex_cfg) ''best_checkpoint.pth''
                      \<and> p \<noteq> osp_join (save_dir_of ex_cfg) ''last_checkpoint.pth''
                      \<longrightarrow> disk s' p = disk ex_start p))
          else trace s' = trace ex_start @ pre \<and> best_test_acc s' = best_test_acc ex_start
               \<and> best_test_iter s' = best_test_iter ex_start \<and> disk s' = disk ex_start))"
    by (elim conjE) (erule mp)
  from e ht have b: "count_list (trace s') Validate = count_list (trace ex_trainer) Validate
          + length (filter (\<lambda>i. (i + 1) mod num_eval_iters ex_cfg = 0)
                      [curr_iter ex_trainer..curr_iter s' - 1])"
    by (elim conjE) (erule mp)
  from a have a': "
      (\<exists>pre. set pre \<inter> eval_events = {} \<and>
            (\<exists>s2 vd. validate ex_env s2 = Inr (emit Validate s2, vd) \<and> ema s2 = ema s'
               \<and> trace s' = trace ex_start @ pre @ [Validate]
                    @ (if fless (best_test_acc ex_start) (validation_accuracy vd)
                       then [Save (osp_join (save_dir_of ex_cfg) ''best_checkpoint.pth'')] else [])
                    @ [Save (osp_join (save_dir_of ex_cfg) ''last_checkpoint.pth''), TbUpdate]
               \<and> best_test_acc s' =
                    (if fless (best_test_acc ex_start) (validation_accuracy vd) then validation_accuracy vd
                     else best_test_acc ex_start)
               \<and> best_test_iter s' =
                    (if fless (best_test_acc ex_start) (validation_accuracy vd) then curr_iter ex_start
                     else best_test_iter ex_start)
               \<and> disk s' (osp_join (save_dir_of ex_cfg) ''last_checkpoint.pth'')
                    = Some (save_dict (s'\<lparr>curr_iter := curr_iter ex_start\<rparr>))
               \<and> disk s' (osp_join (save_dir_of ex_cfg) ''best_checkpoint.pth'')
                    = (if fless (best_test_acc ex_start) (validation_accuracy vd)
                       then Some (save_dict (s'\<lparr>curr_iter := curr_iter ex_start\<rparr>))
                       else disk ex_start (osp_join (save_dir_of ex_cfg) ''best_checkpoint.pth''))
               \<and> (\<forall>p. p \<noteq> osp_join (save_dir_of ex_cfg) ''best_checkpoint.pth''
                      \<and> p \<noteq> osp_join (save_dir_of ex_cfg) ''last_checkpoint.pth''
                      \<longrightarrow> disk s' p = disk ex_start p)))"
    by (simp only: c refl if_True)
  from b z have b': "count_list (trace s') Validate = 1" by simp
  show ?thesis
    apply (rule exI [of _ s'])
    apply (intro conjI)
         apply (rule h)
        apply (rule ht)
       apply (rule a')
      apply (rule v(2))
     apply (rule v(3))
    apply (rule b')
    done
qed

text \<open>
  C4, as stated, fails: a first-pass gradient of zeros is not none, its norm is zero, and
  \<open>rho / norm\<close> times a zero entry is NaN. The perturbation adds NaN to the parameter and
  the restore subtracts NaN from it: the parameter is NaN, not its value before the
  perturbation.
\<close>

theorem restore_after_zero_norm_counterexample:
  "list_all (\<lambda>g. g \<noteq> None)
     (autograd_grad (ex_env\<lparr>autograd_grad := (\<lambda>ps img n lbl. [Some [Fin 0, Fin 0]])\<rparr>)
        (model ex_start) [0, 1, 2] 1 [0])
   \<and> model ex_start = [[Fin 1, Fin 2]]
   \<and> (\<exists>s1. perturb (ex_env\<lparr>autograd_grad := (\<lambda>ps img n lbl. [Some [Fin 0, Fin 0]])\<rparr>)
              ex_cfg ex_start [0, 1, 2] 1 [0] = Inr s1
         \<and> eps s1 = [Some [NaN, NaN]]
         \<and> model s1 = [[NaN, NaN]]
         \<and> restore (model s1) [Some [Fin 1, Fin 1]] (eps s1) (grad_w s1)
              = (None, [[NaN, NaN]], [Some [Fin 1, Fin 1]]))"
  by (simp add: perturb_def norm_list_def fsum_def emit_def Let_def ex_defs)

text \<open>
  C4, amended. In sharpness-aware mode, when the norm of the first-pass gradients is a
  real number other than zero and the restore loop raises no error (every gradient of
  the backward pass that it adds to has the shape of its first-pass gradient), the
  parameters that \<open>perturb\<close> left (every parameter with a first-pass gradient plus its
  \<open>eps\<close>) are, after the restore, the parameters the iteration started from: nothing
  steps them in between, and the arithmetic is exact.
\<close>

theorem perturb_then_restore:
  assumes "perturb env cfg s img n lbl = Inr s1"
    and "norm_list (grad_w s1) = Some (Fin nrm)"
    and "nrm \<noteq> 0"
    and "restore (model s1) pg (eps s1) (grad_w s1) = (None, ps, pg')"
  shows "ps = model s"
proof -
  from perturb_Inr_parts [OF assms(1)] assms(2) have
    e: "eps s1 = map (map_option (map (\<lambda>g. fmul g (fdiv (Fin (rho cfg)) (Fin nrm))))) (grad_w s1)"
    and a: "add_eps (model s) (eps s1) = Some (model s1)" by auto
  from assms(3) have sc: "fdiv (Fin (rho cfg)) (Fin nrm) = Fin (rho cfg / nrm)" by simp
  have fin: "\<forall>v. Some v \<in> set (eps s1) \<longrightarrow> NaN \<notin> set v"
  proof (intro allI impI)
    fix v assume "Some v \<in> set (eps s1)"
    with e sc obtain g where g: "Some g \<in> set (grad_w s1)"
      and v: "v = map (\<lambda>x. fmul x (Fin (rho cfg / nrm))) g"
      by (auto simp add: map_option_case split: option.splits)
    from norm_list_finite [OF assms(2) g] have n: "NaN \<notin> set g" .
    show "NaN \<notin> set v"
    proof
      assume "NaN \<in> set v"
      with v obtain x where x: "x \<in> set g" "fmul x (Fin (rho cfg / nrm)) = NaN" by auto
      with n have "x \<noteq> NaN" by auto
      with x(2) show False by (cases x) simp_all
    qed
  qed
  from e have l: "length (grad_w s1) = length (eps s1)" by simp
  from add_eps_restore [OF a l fin assms(4)] show ?thesis .
qed

theorem perturb_then_restore_witness:
  "\<exists>s1. perturb ex_env ex_cfg ex_start [0, 1, 2] 1 [0] = Inr s1
     \<and> norm_list (grad_w s1) = Some (Fin 5) \<and> (5 :: real) \<noteq> 0
     \<and> model s1 = [[Fin 4, Fin 6]]
     \<and> restore (model s1) [Some [Fin 1, Fin 1]] (eps s1) (grad_w s1)
          = (None, model ex_start, [Some [Fin 4, Fin 5]])"
proof -
  have p: "\<exists>s1. perturb ex_env ex_cfg ex_start [0, 1, 2] 1 [0] = Inr s1
      \<and> grad_w s1 = [Some [Fin 3, Fin 4]] \<and> eps s1 = [Some [Fin 3, Fin 4]]
      \<and> model s1 = [[Fin 4, Fin 6]]"
    by (simp add: perturb_def ex_norm emit_def Let_def ex_defs)
  then obtain s1 where h: "perturb ex_env ex_cfg ex_start [0, 1, 2] 1 [0] = Inr s1"
    and g: "grad_w s1 = [Some [Fin 3, Fin 4]]" "eps s1 = [Some [Fin 3, Fin 4]]"
    and m: "model s1 = [[Fin 4, Fin 6]]" by blast
  have n: "norm_list (grad_w s1) = Some (Fin 5)" by (simp add: g ex_norm)
  have z: "(5 :: real) \<noteq> 0" by simp
  obtain ps pg' where r: "restore (model s1) [Some [Fin 1, Fin 1]] (eps s1) (grad_w s1) = (None, ps, pg')"
    and pg: "pg' = [Some [Fin 4, Fin 5]]"
    by (simp add: g m)
  from perturb_then_restore [OF h n z r] r pg h n z m show ?thesis by simp
qed

text \<open>
  C2, as stated, fails: nothing in the sharpness-aware branch guards the perturbation.
  With every gradient \<open>None\<close> the iteration does not go on: \<open>norm\<close> concatenates an empty
  list and raises. With a gradient of zeros the norm is zero and the iteration does go
  on, but \<open>eps\<close> is NaN, not a step of norm \<open>rho\<close>: the parameters, the EMA model, the
  bank and the checkpoint it ends with hold NaN.
\<close>

theorem no_gradient_counterexample:
  "list_all (\<lambda>g. g = None)
     (autograd_grad (ex_env\<lparr>autograd_grad := (\<lambda>ps img n lbl. [None])\<rparr>) (model ex_start) [0, 1, 2] 1 [0])
   \<and> (\<exists>s'. train_iter (ex_env\<lparr>autograd_grad := (\<lambda>ps img n lbl. [None])\<rparr>) ex_cfg ex_start (ex_lb, ex_ulb)
            = Inl (RuntimeError, s')
         \<and> trace s' = [EnableRunningStats, Forward, CELoss, AutogradGrad]
         \<and> model s' = [[Fin 1, Fin 2]])
   \<and> norm_list (autograd_grad (ex_env\<lparr>autograd_grad := (\<lambda>ps img n lbl. [Some [Fin 0, Fin 0]])\<rparr>)
                  (model ex_start) [0, 1, 2] 1 [0]) = Some (Fin 0)
   \<and> (\<exists>s'. train_iter (ex_env\<lparr>autograd_grad := (\<lambda>ps img n lbl. [Some [Fin 0, Fin 0]])\<rparr>)
              ex_cfg ex_start (ex_lb, ex_ulb) = Inr s'
         \<and> eps s' = [Some [NaN, NaN]] \<and> model s' = [[NaN, NaN]] \<and> ema s' = [[NaN, NaN]]
         \<and> label_bank_w s' = [[NaN, NaN], [Fin (1 / 2), Fin (1 / 2)]]
         \<and> (\<exists>ck. disk s' ''log/run/out/last_checkpoint.pth'' = Some ck
                \<and> model_state_dict ck = [[NaN, NaN]] \<and> ema_state_dict ck = [[NaN, NaN]]))"
proof -
  have a: "list_all (\<lambda>g. g = None)
     (autograd_grad (ex_env\<lparr>autograd_grad := (\<lambda>ps img n lbl. [None])\<rparr>) (model ex_start) [0, 1, 2] 1 [0])"
    by simp
  have b: "norm_list (autograd_grad (ex_env\<lparr>autograd_grad := (\<lambda>ps img n lbl. [Some [Fin 0, Fin 0]])\<rparr>)
                  (model ex_start) [0, 1, 2] 1 [0]) = Some (Fin 0)"
    by (simp add: norm_list_def fsum_def)
  from a ex_iter_none b ex_iter_zero show ?thesis by (intro conjI)
qed

text \<open>
  C2, amended. The first-pass gradients are not checked before the perturbation. When all
  of them are \<open>None\<close>, \<open>norm\<close> raises and the iteration stops there. Otherwise the step
  goes on whatever the norm is: \<open>eps\<close> is each gradient that is not \<open>None\<close> times
  \<open>rho / norm\<close>, and each parameter with such a gradient has its \<open>eps\<close> added (only a
  gradient whose shape is not that of its parameter stops it). At a norm of zero every
  entry of \<open>eps\<close> is NaN.
\<close>

theorem perturb_unguarded:
  "(list_all (\<lambda>g. g = None) (autograd_grad env (model s) img n lbl) \<longrightarrow>
       perturb env cfg s img n lbl
         = Inl (RuntimeError, emit AutogradGrad (s\<lparr>grad_w := autograd_grad env (model s) img n lbl\<rparr>)))
   \<and> (\<forall>e s'. perturb env cfg s img n lbl = Inl (e, s') \<longrightarrow>
         (e = RuntimeError \<and> norm_list (autograd_grad env (model s) img n lbl) = None)
         \<or> e = ShapeMismatch)
   \<and> (\<forall>s'. perturb env cfg s img n lbl = Inr s' \<longrightarrow>
         (\<exists>nrm. norm_list (grad_w s') = Some nrm
            \<and> grad_w s' = autograd_grad env (model s) img n lbl
            \<and> eps s' = map (map_option (map (\<lambda>g. fmul g (fdiv (Fin (rho cfg)) nrm)))) (grad_w s')
            \<and> length (model s') = length (model s)
            \<and> (\<forall>i < length (model s). model s' ! i =
                  (if i < length (eps s')
                   then (case eps s' ! i of None \<Rightarrow> model s ! i
                         | Some v \<Rightarrow> map2 fadd (model s ! i) v)
                   else model s ! i))
            \<and> (nrm = Fin 0 \<longrightarrow> (\<forall>v. Some v \<in> set (eps s') \<longrightarrow> set v \<subseteq> {NaN}))))"
proof (intro conjI allI impI)
  assume "list_all (\<lambda>g. g = None) (autograd_grad env (model s) img n lbl)"
  from norm_list_all_None [OF this]
  show "perturb env cfg s img n lbl
         = Inl (RuntimeError, emit AutogradGrad (s\<lparr>grad_w := autograd_grad env (model s) img n lbl\<rparr>))"
    by (simp add: perturb_def Let_def emit_def)
next
  fix e s' assume "perturb env cfg s img n lbl = Inl (e, s')"
  then show "(e = RuntimeError \<and> norm_list (autograd_grad env (model s) img n lbl) = None)
         \<or> e = ShapeMismatch"
    by (auto simp add: perturb_def Let_def emit_def split: option.splits)
next
  fix s' assume h: "perturb env cfg s img n lbl = Inr s'"
  from perturb_Inr_parts [OF h] obtain nrm where
    n: "norm_list (grad_w s') = Some nrm"
    and g: "grad_w s' = autograd_grad env (model s) img n lbl"
    and e: "eps s' = map (map_option (map (\<lambda>g. fmul g (fdiv (Fin (rho cfg)) nrm)))) (grad_w s')"
    and a: "add_eps (model s) (eps s') = Some (model s')" by blast
  have z: "\<forall>v. Some v \<in> set (eps s') \<longrightarrow> set v \<subseteq> {NaN}" if "nrm = Fin 0"
  proof (intro allI impI)
    fix v assume "Some v \<in> set (eps s')"
    with e that obtain g where "v = map (\<lambda>x. fmul x NaN) g"
      by (auto simp add: map_option_case split: option.splits)
    then show "set v \<subseteq> {NaN}" by (auto simp add: fmul_NaN_right)
  qed
  have nth: "\<forall>i < length (model s). model s' ! i =
                  (if i < length (eps s')
                   then (case eps s' ! i of None \<Rightarrow> model s ! i
                         | Some v \<Rightarrow> map2 fadd (model s ! i) v)
                   else model s ! i)"
    using add_eps_nth [OF a] by blast
  from n g e add_eps_length [OF a] nth z
  show "\<exists>nrm. norm_list (grad_w s') = Some nrm
            \<and> grad_w s' = autograd_grad env (model s) img n lbl
            \<and> eps s' = map (map_option (map (\<lambda>g. fmul g (fdiv (Fin (rho cfg)) nrm)))) (grad_w s')
            \<and> length (model s') = length (model s)
            \<and> (\<forall>i < length (model s). model s' ! i =
                  (if i < length (eps s')
                   then (case eps s' ! i of None \<Rightarrow> model s ! i
                         | Some v \<Rightarrow> map2 fadd (model s ! i) v)
                   else model s ! i))
            \<and> (nrm = Fin 0 \<longrightarrow> (\<forall>v. Some v \<in> set (eps s') \<longrightarrow> set v \<subseteq> {NaN}))"
    by blast
qed

theorem perturb_unguarded_witness:
  "list_all (\<lambda>g. g = None)
     (autograd_grad (ex_env\<lparr>autograd_grad := (\<lambda>ps img n lbl. [None])\<rparr>) (model ex_start) [0, 1, 2] 1 [0])
   \<and> perturb (ex_env\<lparr>autograd_grad := (\<lambda>ps img n lbl. [None])\<rparr>) ex_cfg ex_start [0, 1, 2] 1 [0]
       = Inl (RuntimeError, emit AutogradGrad (ex_start\<lparr>grad_w := [None]\<rparr>))
   \<and> norm_list (autograd_grad (ex_env\<lparr>autograd_grad := (\<lambda>ps img n lbl. [None])\<rparr>)
                  (model ex_start) [0, 1, 2] 1 [0]) = None
   \<and> (\<exists>s'. perturb (ex_env\<lparr>autograd_grad := (\<lambda>ps img n lbl. [Some [Fin 0, Fin 0]])\<rparr>)
              ex_cfg ex_start [0, 1, 2] 1 [0] = Inr s'
         \<and> norm_list (grad_w s') = Some (Fin 0)
         \<and> grad_w s' = [Some [Fin 0, Fin 0]]
         \<and> eps s' = [Some [NaN, NaN]]
         \<and> length (model s') = 1
         \<and> model s' ! 0 = [NaN, NaN])
   \<and> (\<exists>s'. perturb ex_env ex_cfg ex_start [0, 1, 2] 1 [0] = Inr s'
         \<and> norm_list (grad_w s') = Some (Fin 5)
         \<and> grad_w s' = [Some [Fin 3, Fin 4]]
         \<and> eps s' = [Some [Fin 3, Fin 4]]
         \<and> length (model s') = 1
         \<and> model s' ! 0 = [Fin 4, Fin 6])"
proof -
  let ?none = "ex_env\<lparr>autograd_grad := (\<lambda>ps img n lbl. [None])\<rparr>"
  let ?zero = "ex_env\<lparr>autograd_grad := (\<lambda>ps img n lbl. [Some [Fin 0, Fin 0]])\<rparr>"
  have a: "list_all (\<lambda>g. g = None) (autograd_grad ?none (model ex_start) [0, 1, 2] 1 [0])"
    by simp
  note t1 = perturb_unguarded [where env = ?none and cfg = ex_cfg and s = ex_start
      and img = "[0, 1, 2]" and n = 1 and lbl = "[0]"]
  from t1 a have r1: "perturb ?none ex_cfg ex_start [0, 1, 2] 1 [0]
       = Inl (RuntimeError, emit AutogradGrad (ex_start\<lparr>grad_w := [None]\<rparr>))"
    by simp
  from t1 r1 have r2: "norm_list (autograd_grad ?none (model ex_start) [0, 1, 2] 1 [0]) = None"
    by fastforce
  have "\<exists>s'. perturb ?zero ex_cfg ex_start [0, 1, 2] 1 [0] = Inr s'"
    by (simp add: perturb_def norm_list_def fsum_def emit_def Let_def ex_defs)
  then obtain sz where hz: "perturb ?zero ex_cfg ex_start [0, 1, 2] 1 [0] = Inr sz" by blast
  note t2 = perturb_unguarded [where env = ?zero and cfg = ex_cfg and s = ex_start
      and img = "[0, 1, 2]" and n = 1 and lbl = "[0]"]
  from t2 hz obtain nz where
    z: "norm_list (grad_w sz) = Some nz"
       "grad_w sz = autograd_grad ?zero (model ex_start) [0, 1, 2] 1 [0]"
       "eps sz = map (map_option (map (\<lambda>g. fmul g (fdiv (Fin (rho ex_cfg)) nz)))) (grad_w sz)"
       "length (model sz) = length (model ex_start)"
       "\<forall>i < length (model ex_start). model sz ! i =
                  (if i < length (eps sz)
                   then (case eps sz ! i of None \<Rightarrow> model ex_start ! i
                         | Some v \<Rightarrow> map2 fadd (model ex_start ! i) v)
                   else model ex_start ! i)"
    by blast
  from z(2) have gz: "grad_w sz = [Some [Fin 0, Fin 0]]" by simp
  from z(1) gz have nz: "nz = Fin 0" by (simp add: norm_list_def fsum_def)
  from z(3) gz nz have ez: "eps sz = [Some [NaN, NaN]]" by simp
  from z(4) have lz: "length (model sz) = 1" by (simp add: ex_defs)
  from z(5) ez have mz: "model sz ! 0 = [NaN, NaN]" by (simp add: ex_defs)
  have "\<exists>s'. perturb ex_env ex_cfg ex_start [0, 1, 2] 1 [0] = Inr s'"
    by (simp add: perturb_def ex_norm emit_def Let_def ex_defs)
  then obtain sx where hx: "perturb ex_env ex_cfg ex_start [0, 1, 2] 1 [0] = Inr sx" by blast
  note t3 = perturb_unguarded [where env = ex_env and cfg = ex_cfg and s = ex_start
      and img = "[0, 1, 2]" and n = 1 and lbl = "[0]"]
  from t3 hx obtain nx where
    x: "norm_list (grad_w sx) = Some nx"
       "grad_w sx = autograd_grad ex_env (model ex_start) [0, 1, 2] 1 [0]"
       "eps sx = map (map_option (map (\<lambda>g. fmul g (fdiv (Fin (rho ex_cfg)) nx)))) (grad_w sx)"
       "length (model sx) = length (model ex_start)"
       "\<forall>i < length (model ex_start). model sx ! i =
                  (if i < length (eps sx)
                   then (case eps sx ! i of None \<Rightarrow> model ex_start ! i
                         | Some v \<Rightarrow> map2 fadd (model ex_start ! i) v)
                   else model ex_start ! i)"
    by blast
  from x(2) have gx: "grad_w sx = [Some [Fin 3, Fin 4]]" by (simp add: ex_env_def)
  from x(1) gx have nx: "nx = Fin 5" by (simp add: ex_norm)
  from x(3) gx nx have ex: "eps sx = [Some [Fin 3, Fin 4]]" by (simp add: ex_cfg_def)
  from x(4) have lx: "length (model sx) = 1" by (simp add: ex_defs)
  from x(5) ex have mx: "model sx ! 0 = [Fin 4, Fin 6]" by (simp add: ex_defs)
  from a r1 r2 hz z(1) nz gz ez lz mz hx x(1) nx gx ex lx mx show ?thesis by simp
qed

subsection \<open>The counter of the warm-up\<close>

lemma warmup_step_Inr:
  assumes "warmup_step env cfg s b = Inr s'"
  shows "curr_iter s' = curr_iter s + 1"
    and "trace s' = trace s @ [Forward, CELoss, Backward, OptimStep]
           @ (if amp_enabled cfg then [ScalerUpdate] else [])"
  using assms
  by (auto simp add: warmup_step_def warmup_stats_def emit_def Let_def
      split: if_splits option.splits)

lemma warmup_loop_Inr:
  assumes "warmup_loop env cfg s bs = Inr s'"
  shows "curr_iter s' =
           (if bs \<noteq> [] \<and> num_warmup_iters cfg < curr_iter s + int (length bs) then 0
            else curr_iter s + int (length bs))
    \<and> count_list (trace s') OptimStep = count_list (trace s) OptimStep
         + min (length bs) (nat (num_warmup_iters cfg - curr_iter s))"
  using assms
proof (induction bs arbitrary: s)
  case Nil
  then show ?case by simp
next
  case (Cons b bs)
  show ?case
  proof (cases "curr_iter s \<ge> num_warmup_iters cfg")
    case True
    with Cons.prems show ?thesis by auto
  next
    case False
    with Cons.prems obtain s1 where
      st: "warmup_step env cfg s b = Inr s1" and l: "warmup_loop env cfg s1 bs = Inr s'"
      by (auto split: sum.splits)
    note c = warmup_step_Inr [OF st]
    from c(2) have o: "count_list (trace s1) OptimStep = count_list (trace s) OptimStep + 1"
      by simp
    from False have n: "nat (num_warmup_iters cfg - curr_iter s)
        = Suc (nat (num_warmup_iters cfg - (curr_iter s + 1)))" by simp
    from Cons.IH [OF l] c(1) o False show ?thesis
      by (simp only: n) auto
  qed
qed


lemma ex_warmup:
  "\<exists>s'. warmup_train ex_env (ex_cfg\<lparr>num_warmup_iters := 1\<rparr>) ex_trainer = Inr s'
     \<and> curr_iter s' = 1
     \<and> trace s' = [Forward, CELoss, Backward, OptimStep]
     \<and> model s' = [[Fin 2, Fin 3]]
     \<and> tau_t s' = Fin (1 / 2) \<and> p_t s' = [Fin (1 / 2), Fin (1 / 2)]
     \<and> label_hist s' = [Fin 1, Fin 0]"
  by (simp add: warmup_train_def warmup_step_def warmup_stats_def row_max_def
      col_means_def bincount_def mean_def softmax_def fsum_def emit_def Let_def ex_defs)


lemma ex_warmup_break:
  "\<exists>s'. warmup_train (ex_env\<lparr>train_lb_dl := [ex_lb, ex_lb]\<rparr>)
           (ex_cfg\<lparr>num_warmup_iters := 1\<rparr>) ex_trainer = Inr s'
     \<and> trace s' = [Forward, CELoss, Backward, OptimStep]"
  by (simp add: warmup_train_def warmup_step_def warmup_stats_def row_max_def
      col_means_def bincount_def mean_def softmax_def fsum_def emit_def Let_def ex_defs)

text \<open>
  C3, at its second exit, fails: here the labeled loader has one batch and
  \<open>num_warmup_iters = 1\<close>. The loop ends because the loader has no batch left, the reset
  of the \<open>break\<close> is not reached, and \<open>__init__\<close> hands over a trainer whose counter is 1.
\<close>

theorem warmup_exhausted_counterexample:
  "train_lb_dl ex_env = [ex_lb] \<and> curr_iter ex_trainer = 0
   \<and> (\<exists>s'. warmup_train ex_env (ex_cfg\<lparr>num_warmup_iters := 1\<rparr>) ex_trainer = Inr s'
         \<and> curr_iter s' = 1
         \<and> trace s' = [Forward, CELoss, Backward, OptimStep])
   \<and> (\<exists>s'. init ex_env (ex_cfg\<lparr>num_warmup_iters := 1\<rparr>) (\<lambda>path. None) = Inr s'
         \<and> curr_iter s' = 1
         \<and> trace s' = [Forward, CELoss, Backward, OptimStep, Validate])"
proof -
  from ex_warmup obtain s' where
    w: "warmup_train ex_env (ex_cfg\<lparr>num_warmup_iters := 1\<rparr>) ex_trainer = Inr s'"
    and v: "curr_iter s' = 1" "trace s' = [Forward, CELoss, Backward, OptimStep]" by blast
  have t: "init ex_env (ex_cfg\<lparr>num_warmup_iters := 1\<rparr>) (\<lambda>path. None)
      = bind_res (warmup_train ex_env (ex_cfg\<lparr>num_warmup_iters := 1\<rparr>) ex_trainer)
          (\<lambda>s2. bind_res (validate ex_env s2) (\<lambda>(s3, validate_dict). Inr s3))"
    by (simp add: init_def bind_res_def mean_def fsum_def numeral_2_eq_2 Let_def ex_defs)
  have "\<exists>vd. validate ex_env s' = Inr (emit Validate s', vd)"
    by (simp add: validate_def row_max_def fsum_def Let_def ex_env_def ex_lb_def)
  then obtain vd where "validate ex_env s' = Inr (emit Validate s', vd)" by blast
  with t w have "init ex_env (ex_cfg\<lparr>num_warmup_iters := 1\<rparr>) (\<lambda>path. None) = Inr (emit Validate s')"
    by (simp add: bind_res_def)
  moreover have "curr_iter (emit Validate s') = 1"
      "trace (emit Validate s') = [Forward, CELoss, Backward, OptimStep, Validate]"
    using v by (simp_all add: emit_def)
  moreover have "train_lb_dl ex_env = [ex_lb]" "curr_iter ex_trainer = 0"
    by (simp_all add: ex_env_def ex_trainer_def)
  ultimately show ?thesis using w v by blast
qed

text \<open>
  C3, as the code has it. \<open>warmup_train\<close> makes one step for each batch of the labeled
  loader until the counter has reached \<open>num_warmup_iters\<close> or the loader has no batch
  left, whichever comes first: the steps it adds are as many as the smaller of the number
  of batches and \<open>num_warmup_iters - curr_iter\<close>. When it returns, the counter is zero
  only if the loop ended at the \<open>break\<close>, that is, if a batch was left when the counter
  reached \<open>num_warmup_iters\<close>; when the loader ran out first, or together with the count,
  the counter is the counter at the start plus the number of batches.
\<close>

theorem warmup_counter:
  assumes "warmup_train env cfg s = Inr s'"
  shows "curr_iter s' =
           (if train_lb_dl env \<noteq> []
               \<and> num_warmup_iters cfg < curr_iter s + int (length (train_lb_dl env)) then 0
            else curr_iter s + int (length (train_lb_dl env)))
    \<and> count_list (trace s') OptimStep = count_list (trace s) OptimStep
         + min (length (train_lb_dl env)) (nat (num_warmup_iters cfg - curr_iter s))"
  using warmup_loop_Inr [of env cfg s "train_lb_dl env" s'] assms
  by (simp only: warmup_train_def)

theorem warmup_counter_witness:
  "(\<exists>s'. warmup_train ex_env (ex_cfg\<lparr>num_warmup_iters := 1\<rparr>) ex_trainer = Inr s'
       \<and> curr_iter s' = 1 \<and> count_list (trace s') OptimStep = 1)
   \<and> (\<exists>s'. warmup_train (ex_env\<lparr>train_lb_dl := [ex_lb, ex_lb]\<rparr>)
              (ex_cfg\<lparr>num_warmup_iters := 1\<rparr>) ex_trainer = Inr s'
       \<and> curr_iter s' = 0 \<and> count_list (trace s') OptimStep = 1)"
proof -
  from ex_warmup obtain s1 where
    w1: "warmup_train ex_env (ex_cfg\<lparr>num_warmup_iters := 1\<rparr>) ex_trainer = Inr s1" by blast
  from ex_warmup_break obtain s2 where
    w2: "warmup_train (ex_env\<lparr>train_lb_dl := [ex_lb, ex_lb]\<rparr>)
           (ex_cfg\<lparr>num_warmup_iters := 1\<rparr>) ex_trainer = Inr s2" by blast
  from warmup_counter [OF w1] have a: "curr_iter s1 = 1 \<and> count_list (trace s1) OptimStep = 1"
    by (simp add: ex_defs)
  from warmup_counter [OF w2] have b: "curr_iter s2 = 0 \<and> count_list (trace s2) OptimStep = 1"
    by (simp add: ex_defs)
  from w1 w2 a b show ?thesis by blast
qed

subsection \<open>The statistics at the start of training\<close>

lemma uniform_mean:
  assumes "0 < C"
  shows "fdiv (Fin 1) (Fin (real C)) = Fin (1 / real C)"
    and "mean (replicate C (Fin (1 / real C))) = Fin (1 / real C)"
proof -
  from assms show "fdiv (Fin 1) (Fin (real C)) = Fin (1 / real C)" by simp
  from assms show "mean (replicate C (Fin (1 / real C))) = Fin (1 / real C)"
    by (simp only: mean_def fsum_replicate length_replicate) simp
qed

text \<open>
  C8, as stated, fails: with \<open>CONT_TRAIN\<close> set, \<open>__init__\<close> loads the checkpoint before it
  looks at \<open>num_warmup_iters\<close>. Here \<open>num_warmup_iters = 0\<close>, the warm-up is skipped, and
  training begins with the statistics of the checkpoint, which are not uniform.
\<close>

theorem resumed_statistics_counterexample:
  "num_warmup_iters (ex_cfg\<lparr>cont_train := True\<rparr>) = 0
   \<and> num_classes (ex_cfg\<lparr>cont_train := True\<rparr>) = 2
   \<and> (\<exists>s. init ex_env (ex_cfg\<lparr>cont_train := True\<rparr>)
              ((\<lambda>path. None)(''ckpt.pth'' \<mapsto>
                 save_dict (ex_trainer\<lparr> tau_t := Fin (9 / 10), p_t := [Fin (9 / 10), Fin (1 / 10)],
                                         label_hist := [Fin 1, Fin 0] \<rparr>))) = Inr s
         \<and> trace s = []
         \<and> tau_t s = Fin (9 / 10) \<and> p_t s = [Fin (9 / 10), Fin (1 / 10)]
         \<and> label_hist s = [Fin 1, Fin 0])"
  by (simp add: init_def load_model_def save_dict_def same_shape_def bind_res_def Let_def ex_defs)

text \<open>
  C8, amended. When \<open>num_warmup_iters\<close> is zero (or less), \<open>__init__\<close> runs no warm-up
  step and no evaluation. When the run does not resume from a checkpoint, it succeeds and
  training begins with the uniform statistics: \<open>p_t\<close> and \<open>label_hist\<close> are the vector
  of \<open>C\<close> entries \<open>1/C\<close> and \<open>tau_t = 1/C\<close>, for \<open>C > 0\<close> classes, at iteration zero. When
  the run resumes, training begins with the statistics of the checkpoint.
\<close>

theorem no_warmup_start:
  assumes "num_warmup_iters cfg \<le> 0"
  shows "(\<not> cont_train cfg \<and> 0 < num_classes cfg \<longrightarrow>
           (\<exists>s. init env cfg files = Inr s \<and> trace s = [] \<and> curr_iter s = 0
              \<and> model s = init_model env
              \<and> p_t s = replicate (num_classes cfg) (Fin (1 / real (num_classes cfg)))
              \<and> label_hist s = replicate (num_classes cfg) (Fin (1 / real (num_classes cfg)))
              \<and> tau_t s = Fin (1 / real (num_classes cfg))))
       \<and> (cont_train cfg \<longrightarrow>
           (\<forall>s. init env cfg files = Inr s \<longrightarrow>
              (\<exists>ck. files (resume cfg) = Some ck \<and> trace s = []
                 \<and> curr_iter s = ck_curr_iter ck
                 \<and> tau_t s = ck_tau_t ck \<and> p_t s = ck_p_t ck
                 \<and> label_hist s = ck_label_hist ck)))"
proof (intro conjI impI allI)
  assume h: "\<not> cont_train cfg \<and> 0 < num_classes cfg"
  then have c: "0 < num_classes cfg" by simp
  from assms h show "\<exists>s. init env cfg files = Inr s \<and> trace s = [] \<and> curr_iter s = 0
              \<and> model s = init_model env
              \<and> p_t s = replicate (num_classes cfg) (Fin (1 / real (num_classes cfg)))
              \<and> label_hist s = replicate (num_classes cfg) (Fin (1 / real (num_classes cfg)))
              \<and> tau_t s = Fin (1 / real (num_classes cfg))"
    by (simp add: init_def bind_res_def Let_def uniform_mean [OF c])
next
  fix s assume "cont_train cfg" and "init env cfg files = Inr s"
  with assms show "\<exists>ck. files (resume cfg) = Some ck \<and> trace s = []
                 \<and> curr_iter s = ck_curr_iter ck
                 \<and> tau_t s = ck_tau_t ck \<and> p_t s = ck_p_t ck
                 \<and> label_hist s = ck_label_hist ck"
    by (auto simp add: init_def load_model_def bind_res_def Let_def
        split: option.splits if_splits)
qed

theorem no_warmup_start_witness:
  "num_warmup_iters ex_cfg \<le> 0 \<and> \<not> cont_train ex_cfg \<and> 0 < num_classes ex_cfg
   \<and> (\<exists>s. init ex_env ex_cfg (\<lambda>path. None) = Inr s \<and> trace s = [] \<and> curr_iter s = 0
         \<and> model s = [[Fin 1, Fin 2]]
         \<and> p_t s = [Fin (1 / 2), Fin (1 / 2)]
         \<and> label_hist s = [Fin (1 / 2), Fin (1 / 2)]
         \<and> tau_t s = Fin (1 / 2))
   \<and> num_warmup_iters (ex_cfg\<lparr>cont_train := True\<rparr>) \<le> 0 \<and> cont_train (ex_cfg\<lparr>cont_train := True\<rparr>)
   \<and> (\<exists>s. init ex_env (ex_cfg\<lparr>cont_train := True\<rparr>)
              ((\<lambda>path. None)(''ckpt.pth'' \<mapsto> save_dict (ex_trainer\<lparr>curr_iter := 3, tau_t := Fin (9 / 10)\<rparr>)))
            = Inr s
         \<and> trace s = [] \<and> curr_iter s = 3 \<and> tau_t s = Fin (9 / 10)
         \<and> p_t s = [Fin (1 / 2), Fin (1 / 2)] \<and> label_hist s = [Fin (1 / 2), Fin (1 / 2)])"
proof -
  let ?files = "(\<lambda>path. None)(''ckpt.pth'' \<mapsto> save_dict (ex_trainer\<lparr>curr_iter := 3, tau_t := Fin (9 / 10)\<rparr>))"
  have a: "num_warmup_iters ex_cfg \<le> 0" "\<not> cont_train ex_cfg \<and> 0 < num_classes ex_cfg"
    by (simp_all add: ex_cfg_def)
  have b: "num_warmup_iters (ex_cfg\<lparr>cont_train := True\<rparr>) \<le> 0"
    "cont_train (ex_cfg\<lparr>cont_train := True\<rparr>)"
    by (simp_all add: ex_cfg_def)
  from no_warmup_start [OF a(1), of ex_env "\<lambda>path. None"] a(2)
  have r1: "\<exists>s. init ex_env ex_cfg (\<lambda>path. None) = Inr s \<and> trace s = [] \<and> curr_iter s = 0
         \<and> model s = [[Fin 1, Fin 2]]
         \<and> p_t s = [Fin (1 / 2), Fin (1 / 2)]
         \<and> label_hist s = [Fin (1 / 2), Fin (1 / 2)]
         \<and> tau_t s = Fin (1 / 2)"
    by (simp add: ex_cfg_def ex_env_def numeral_2_eq_2)
  have "\<exists>s. init ex_env (ex_cfg\<lparr>cont_train := True\<rparr>) ?files = Inr s"
    by (simp add: init_def load_model_def save_dict_def same_shape_def bind_res_def Let_def ex_defs)
  then obtain s where i: "init ex_env (ex_cfg\<lparr>cont_train := True\<rparr>) ?files = Inr s" by blast
  from no_warmup_start [OF b(1), of ex_env ?files] b(2) i
  have "\<exists>ck. ?files (resume (ex_cfg\<lparr>cont_train := True\<rparr>)) = Some ck \<and> trace s = []
                 \<and> curr_iter s = ck_curr_iter ck
                 \<and> tau_t s = ck_tau_t ck \<and> p_t s = ck_p_t ck
                 \<and> label_hist s = ck_label_hist ck"
    by blast
  then have "trace s = [] \<and> curr_iter s = 3 \<and> tau_t s = Fin (9 / 10)
         \<and> p_t s = [Fin (1 / 2), Fin (1 / 2)] \<and> label_hist s = [Fin (1 / 2), Fin (1 / 2)]"
    by (auto simp add: save_dict_def ex_cfg_def ex_trainer_def)
  with i have r2: "\<exists>s. init ex_env (ex_cfg\<lparr>cont_train := True\<rparr>) ?files = Inr s
         \<and> trace s = [] \<and> curr_iter s = 3 \<and> tau_t s = Fin (9 / 10)
         \<and> p_t s = [Fin (1 / 2), Fin (1 / 2)] \<and> label_hist s = [Fin (1 / 2), Fin (1 / 2)]"
    by blast
  from a b r1 r2 show ?thesis by blast
qed

subsection \<open>The consistency term and the banks\<close>

lemma map2_nth_conv:
  "length xs = length ys \<Longrightarrow> map2 f xs ys = map (\<lambda>i. f (xs ! i) (ys ! i)) [0..<length xs]"
  by (rule nth_equalityI) simp_all

lemma same_shape_nth:
  assumes "same_shape a b"
  shows "length a = length b" and "i < length a \<Longrightarrow> length (a ! i) = length (b ! i)"
proof -
  from assms have m: "map length a = map length b" by (simp add: same_shape_def)
  then show l: "length a = length b" by (rule map_eq_imp_length_eq)
  assume "i < length a"
  with l have "map length a ! i = length (a ! i)" "map length b ! i = length (b ! i)" by simp_all
  with m show "length (a ! i) = length (b ! i)" by simp
qed

lemma msub_nth_conv:
  assumes "same_shape a b"
  shows "msub a b = map (\<lambda>i. map (\<lambda>j. fsub (a ! i ! j) (b ! i ! j)) [0..<length (a ! i)]) [0..<length a]"
  using same_shape_nth [OF assms]
  by (simp add: msub_def map2_nth_conv)

lemma concat_positions:
  "concat (map (\<lambda>i. map (g i) [0..<m i]) [0..<n])
     = map (\<lambda>(i, j). g i j) (concat (map (\<lambda>i. map (\<lambda>j. (i, j)) [0..<m i]) [0..<n]))"
  by (simp add: map_concat comp_def)

lemma mse_loss_spec:
  assumes "same_shape a b"
  shows "mse_loss a b = mse_spec a b"
proof -
  have "concat (msub a b) = map (\<lambda>(i, j). fsub (a ! i ! j) (b ! i ! j)) (positions a)"
    unfolding msub_nth_conv [OF assms] positions_def
    by (rule concat_positions)
  then show ?thesis
    by (simp add: mse_loss_def mse_spec_def mean_def comp_def case_prod_unfold)
qed

lemma softmax_length: "length (softmax r) = length r"
  by (simp add: softmax_def)

lemma msub_shift:
  assumes "same_shape (map softmax logits) (map (\<lambda>i. bank ! i) ix)"
  shows "msub (map softmax logits) (map (\<lambda>i. bank ! i) ix) = shift logits bank ix"
  unfolding msub_nth_conv [OF assms] shift_def
  using same_shape_nth(1) [OF assms]
  by (simp add: softmax_length)


lemma foldl_upd_length:
  "length (foldl (\<lambda>b (i, r). b[i := r]) bank ps) = length bank"
  by (induction ps arbitrary: bank) (auto split: prod.splits)

lemma foldl_upd_notin:
  "i \<notin> fst ` set ps \<Longrightarrow> foldl (\<lambda>b (i, r). b[i := r]) bank ps ! i = bank ! i"
  by (induction ps arbitrary: bank) (auto split: prod.splits)

lemma foldl_upd_last:
  assumes "i < length bank" and "i \<notin> fst ` set post"
  shows "foldl (\<lambda>b (i, r). b[i := r]) bank (pre @ (i, r) # post) ! i = r"
  using assms by (simp add: foldl_upd_notin foldl_upd_length)

lemma scatter_length: "length (scatter bank ix rows) = length bank"
  by (simp add: scatter_def foldl_upd_length)

lemma scatter_other: "i \<notin> set ix \<Longrightarrow> scatter bank ix rows ! i = bank ! i"
proof -
  assume "i \<notin> set ix"
  then have "i \<notin> fst ` set (zip ix rows)" by (auto dest: set_zip_leftD)
  then show ?thesis by (simp add: scatter_def foldl_upd_notin)
qed

lemma scatter_row:
  assumes "k < length ix" and "length rows = length ix" and "ix ! k < length bank"
    and "ix ! k \<notin> set (drop (Suc k) ix)"
  shows "scatter bank ix rows ! (ix ! k) = rows ! k"
proof -
  let ?z = "zip ix rows"
  from assms(1,2) have k: "k < length ?z" by simp
  then have z: "?z = take k ?z @ (ix ! k, rows ! k) # drop (Suc k) ?z"
    using id_take_nth_drop [OF k] by simp
  have "ix ! k \<notin> fst ` set (drop (Suc k) ?z)"
  proof
    assume "ix ! k \<in> fst ` set (drop (Suc k) ?z)"
    then obtain r where "(ix ! k, r) \<in> set (zip (drop (Suc k) ix) (drop (Suc k) rows))"
      by (auto simp add: drop_zip)
    then have "ix ! k \<in> set (drop (Suc k) ix)" by (rule set_zip_leftD)
    with assms(4) show False by simp
  qed
  from foldl_upd_last [OF assms(3) this, of "take k ?z" "rows ! k"] z
  show ?thesis by (simp add: scatter_def)
qed

lemma po_term_Inr:
  assumes "po_term bank_w bank_s ix wh sh = Inr (l_po, bw, bs)"
  shows "l_po = mse_spec (shift wh bank_w ix) (shift sh bank_s ix)"
    and "bw = scatter bank_w ix (map softmax wh)" and "bs = scatter bank_s ix (map softmax sh)"
    and "length wh = length ix" and "length sh = length ix"
    and "list_all (\<lambda>i. i < length bank_w) ix" and "list_all (\<lambda>i. i < length bank_s) ix"
proof -
  from assms have g: "gather bank_w ix = Some (map (\<lambda>i. bank_w ! i) ix)"
      "gather bank_s ix = Some (map (\<lambda>i. bank_s ! i) ix)"
    and r: "list_all (\<lambda>i. i < length bank_w) ix" "list_all (\<lambda>i. i < length bank_s) ix"
    by (auto simp add: po_term_def gather_def split: option.splits if_splits)
  from assms g have sh: "same_shape (map softmax wh) (map (\<lambda>i. bank_w ! i) ix)"
      "same_shape (map softmax sh) (map (\<lambda>i. bank_s ! i) ix)"
      "same_shape (msub (map softmax wh) (map (\<lambda>i. bank_w ! i) ix))
                  (msub (map softmax sh) (map (\<lambda>i. bank_s ! i) ix))"
    and v: "l_po = mse_loss (msub (map softmax wh) (map (\<lambda>i. bank_w ! i) ix))
                     (msub (map softmax sh) (map (\<lambda>i. bank_s ! i) ix))"
       "bw = scatter bank_w ix (map softmax wh)" "bs = scatter bank_s ix (map softmax sh)"
    by (auto simp add: po_term_def Let_def split: if_splits)
  from v(1) mse_loss_spec [OF sh(3)] msub_shift [OF sh(1)] msub_shift [OF sh(2)]
  show "l_po = mse_spec (shift wh bank_w ix) (shift sh bank_s ix)" by simp
  from v show "bw = scatter bank_w ix (map softmax wh)" "bs = scatter bank_s ix (map softmax sh)"
    by simp_all
  from same_shape_nth(1) [OF sh(1)] same_shape_nth(1) [OF sh(2)]
  show "length wh = length ix" "length sh = length ix" by simp_all
  from r show "list_all (\<lambda>i. i < length bank_w) ix" "list_all (\<lambda>i. i < length bank_s) ix" .
qed

lemma sharp_losses_po:
  assumes "sharp_losses env cfg s img n lbl ix lw = Inr (s', l)"
  shows "\<exists>wh sh l_po. chunk2 (drop n (net_fwd env (model s) img)) = Some (wh, sh)
     \<and> po_term (label_bank_w s) (label_bank_s s) ix wh sh = Inr (l_po, label_bank_w s', label_bank_s s')
     \<and> loss_po l = Some l_po"
  using assms
  by (auto simp add: sharp_losses_def emit_def Let_def
      split: option.splits if_splits prod.splits sum.splits)

text \<open>
  C7. In sharpness-aware mode, an iteration whose forward phase completes has as its
  consistency term the mean, over all entries, of the squared difference between the
  weak shift and the strong shift, where the shift of a view is the softmax of its
  second-pass logits (on the perturbed parameters) minus the rows that the bank of that
  view held at the batch indices when the iteration began. After it, each bank has its
  old size, holds at a batch index the softmax row of this iteration (of the last
  position with that index, if an index occurs twice), and is unchanged elsewhere. The
  model has values only: that the stored rows are detached is not a property of values.
\<close>

theorem po_consistency:
  assumes "x_sharp cfg" and "forward_phase env cfg s lb ulb = Inr (s1, l)"
  shows "
    (\<exists>w_hat s_hat.
        chunk2 (drop (length (img_lb_w lb))
                  (net_fwd env (model s1) (img_lb_w lb @ img_ulb_w ulb @ img_ulb_s ulb)))
          = Some (w_hat, s_hat)
      \<and> length w_hat = length (idx ulb) \<and> length s_hat = length (idx ulb)
      \<and> loss_po l = Some (mse_spec (shift w_hat (label_bank_w s) (idx ulb))
                                     (shift s_hat (label_bank_s s) (idx ulb)))
      \<and> length (label_bank_w s1) = length (label_bank_w s)
      \<and> length (label_bank_s s1) = length (label_bank_s s)
      \<and> (\<forall>k < length (idx ulb).
            idx ulb ! k < length (label_bank_w s) \<and> idx ulb ! k < length (label_bank_s s)
            \<and> (idx ulb ! k \<notin> set (drop (Suc k) (idx ulb)) \<longrightarrow>
                 label_bank_w s1 ! (idx ulb ! k) = softmax (w_hat ! k)
                 \<and> label_bank_s s1 ! (idx ulb ! k) = softmax (s_hat ! k)))
      \<and> (\<forall>i. i \<notin> set (idx ulb) \<longrightarrow>
            label_bank_w s1 ! i = label_bank_w s ! i \<and> label_bank_s s1 ! i = label_bank_s s ! i))"
proof -
  let ?img = "img_lb_w lb @ img_ulb_w ulb @ img_ulb_s ulb"
  from forward_phase_sharp [OF assms] obtain s2 lw where
    p: "perturb env cfg (emit CELoss (emit Forward (emit EnableRunningStats s)))
              ?img (length (img_lb_w lb)) (label_lb lb) = Inr s2"
    and q: "sharp_losses env cfg s2 ?img (length (img_lb_w lb)) (label_lb lb) (idx ulb) lw = Inr (s1, l)"
    by blast
  from perturb_Inr(3,4) [OF p] have b: "label_bank_w s2 = label_bank_w s" "label_bank_s s2 = label_bank_s s"
    by (simp_all add: emit_def)
  from sharp_losses_Inr(3) [OF q] have m: "model s2 = model s1" by simp
  from sharp_losses_po [OF q] b m obtain wh sh l_po where
    c: "chunk2 (drop (length (img_lb_w lb)) (net_fwd env (model s1) ?img)) = Some (wh, sh)"
    and t: "po_term (label_bank_w s) (label_bank_s s) (idx ulb) wh sh
              = Inr (l_po, label_bank_w s1, label_bank_s s1)"
    and lp: "loss_po l = Some l_po" by auto
  note r = po_term_Inr [OF t]
  have rows: "idx ulb ! k < length (label_bank_w s) \<and> idx ulb ! k < length (label_bank_s s)
        \<and> (idx ulb ! k \<notin> set (drop (Suc k) (idx ulb)) \<longrightarrow>
             label_bank_w s1 ! (idx ulb ! k) = softmax (wh ! k)
             \<and> label_bank_s s1 ! (idx ulb ! k) = softmax (sh ! k))"
    if k: "k < length (idx ulb)" for k
  proof -
    from r(6,7) k have i: "idx ulb ! k < length (label_bank_w s)" "idx ulb ! k < length (label_bank_s s)"
      by (simp_all add: list_all_length)
    have "label_bank_w s1 ! (idx ulb ! k) = softmax (wh ! k)
             \<and> label_bank_s s1 ! (idx ulb ! k) = softmax (sh ! k)"
      if u: "idx ulb ! k \<notin> set (drop (Suc k) (idx ulb))"
    proof -
      from r(4,5) have l: "length (map softmax wh) = length (idx ulb)"
          "length (map softmax sh) = length (idx ulb)" by simp_all
      from scatter_row [OF k l(1) i(1) u] scatter_row [OF k l(2) i(2) u] r(2,3,4,5) k
      show ?thesis by simp
    qed
    with i show ?thesis by blast
  qed
  have other: "label_bank_w s1 ! i = label_bank_w s ! i \<and> label_bank_s s1 ! i = label_bank_s s ! i"
    if "i \<notin> set (idx ulb)" for i
    using that r(2,3) by (simp add: scatter_other)
  have len: "length (label_bank_w s1) = length (label_bank_w s)"
      "length (label_bank_s s1) = length (label_bank_s s)"
    using r(2,3) by (simp_all add: scatter_length)
  from c r(4,5) lp r(1) len rows other show ?thesis by blast
qed

lemma ex_forward:
  "\<exists>s1 l. forward_phase ex_env ex_cfg
            (ex_start\<lparr>label_bank_w := [[Fin 1, Fin 0], [Fin (1 / 2), Fin (1 / 2)]]\<rparr>) ex_lb ex_ulb = Inr (s1, l)
     \<and> model s1 = [[Fin 4, Fin 6]]
     \<and> loss_po l = Some (Fin (1 / 4))
     \<and> label_bank_w s1 = [[Fin (1 / 2), Fin (1 / 2)], [Fin (1 / 2), Fin (1 / 2)]]
     \<and> label_bank_s s1 = [[Fin (1 / 2), Fin (1 / 2)], [Fin (1 / 2), Fin (1 / 2)]]"
  by (simp add: forward_phase_def perturb_def ex_norm bind_res_def sharp_losses_def po_term_def
      gather_def scatter_def msub_def mse_loss_def mean_def same_shape_def softmax_def chunk2_def fsum_def
      emit_def Let_def ex_defs power2_eq_square)

theorem po_consistency_witness:
  "x_sharp ex_cfg
   \<and> (\<exists>s1 l. forward_phase ex_env ex_cfg
            (ex_start\<lparr>label_bank_w := [[Fin 1, Fin 0], [Fin (1 / 2), Fin (1 / 2)]]\<rparr>) ex_lb ex_ulb = Inr (s1, l)
     \<and> loss_po l = Some (Fin (1 / 4))
     \<and> label_bank_w s1 = [[Fin (1 / 2), Fin (1 / 2)], [Fin (1 / 2), Fin (1 / 2)]]
     \<and>
       (\<exists>w_hat s_hat.
           chunk2 (drop (length (img_lb_w ex_lb))
                     (net_fwd ex_env (model s1) (img_lb_w ex_lb @ img_ulb_w ex_ulb @ img_ulb_s ex_ulb)))
             = Some (w_hat, s_hat)
         \<and> length w_hat = length (idx ex_ulb) \<and> length s_hat = length (idx ex_ulb)
         \<and> loss_po l = Some (mse_spec (shift w_hat (label_bank_w (ex_start\<lparr>label_bank_w := [[Fin 1, Fin 0], [Fin (1 / 2), Fin (1 / 2)]]\<rparr>)) (idx ex_ulb))
                                        (shift s_hat (label_bank_s (ex_start\<lparr>label_bank_w := [[Fin 1, Fin 0], [Fin (1 / 2), Fin (1 / 2)]]\<rparr>)) (idx ex_ulb)))
         \<and> length (label_bank_w s1) = length (label_bank_w (ex_start\<lparr>label_bank_w := [[Fin 1, Fin 0], [Fin (1 / 2), Fin (1 / 2)]]\<rparr>))
         \<and> length (label_bank_s s1) = length (label_bank_s (ex_start\<lparr>label_bank_w := [[Fin 1, Fin 0], [Fin (1 / 2), Fin (1 / 2)]]\<rparr>))
         \<and> (\<forall>k < length (idx ex_ulb).
               idx ex_ulb ! k < length (label_bank_w (ex_start\<lparr>label_bank_w := [[Fin 1, Fin 0], [Fin (1 / 2), Fin (1 / 2)]]\<rparr>)) \<and> idx ex_ulb ! k < length (label_bank_s (ex_start\<lparr>label_bank_w := [[Fin 1, Fin 0], [Fin (1 / 2), Fin (1 / 2)]]\<rparr>))
               \<and> (idx ex_ulb ! k \<notin> set (drop (Suc k) (idx ex_ulb)) \<longrightarrow>
                    label_bank_w s1 ! (idx ex_ulb ! k) = softmax (w_hat ! k)
                    \<and> label_bank_s s1 ! (idx ex_ulb ! k) = softmax (s_hat ! k)))
         \<and> (\<forall>i. i \<notin> set (idx ex_ulb) \<longrightarrow>
               label_bank_w s1 ! i = label_bank_w (ex_start\<lparr>label_bank_w := [[Fin 1, Fin 0], [Fin (1 / 2), Fin (1 / 2)]]\<rparr>) ! i \<and> label_bank_s s1 ! i = label_bank_s (ex_start\<lparr>label_bank_w := [[Fin 1, Fin 0], [Fin (1 / 2), Fin (1 / 2)]]\<rparr>) ! i)))"
proof -
  have x: "x_sharp ex_cfg" by (simp add: ex_cfg_def)
  from ex_forward obtain s1 l where
    f: "forward_phase ex_env ex_cfg
            (ex_start\<lparr>label_bank_w := [[Fin 1, Fin 0], [Fin (1 / 2), Fin (1 / 2)]]\<rparr>) ex_lb ex_ulb = Inr (s1, l)"
    and v: "loss_po l = Some (Fin (1 / 4))"
       "label_bank_w s1 = [[Fin (1 / 2), Fin (1 / 2)], [Fin (1 / 2), Fin (1 / 2)]]" by blast
  note t = po_consistency [OF x f]
  show ?thesis
    apply (rule conjI)
     apply (rule x)
    apply (rule exI [of _ s1])
    apply (rule exI [of _ l])
    apply (intro conjI)
       apply (rule f)
      apply (rule v(1))
     apply (rule v(2))
    apply (rule t)
    done
qed

end
